theory Spec2Isabelle
  imports Main
begin

section \<open>Data model\<close>

text \<open>
  The documents of the three collections, as the schemas declare them
  (models/Product, models/Order, models/Cart). A JavaScript \<open>Number\<close> that holds a
  count (stock, quantity) or a price is an \<open>int\<close>: the schemas' \<open>min\<close>
  validators run on \<open>save\<close> only, so negative values are representable. An
  \<open>ObjectId\<close> is the string \<open>toString()\<close> gives for it. Documents in the
  database conform to their schema, so that saving a loaded order after changing its
  flags or its payment details passes validation.
\<close>

record variant =
  v_size :: string
  v_colorName :: string
  v_colorHex :: string
  v_stock :: int

record product =
  p_id :: string
  p_name :: string
  p_variants :: "variant list"

record order_item =
  oi_name :: string
  oi_quantity :: int
  oi_price :: int
  oi_image :: string
  oi_size :: string
  oi_colorName :: string
  oi_product :: string

record shipping_address =
  sa_fullName :: string
  sa_address :: string
  sa_city :: string
  sa_postalCode :: string
  sa_country :: string
  sa_phone :: string

record payment_details =
  razorpayPaymentId :: "string option"
  razorpayOrderId :: "string option"
  razorpaySignature :: "string option"
  paymentMethod :: "string option"

record order =
  o_id :: string
  o_user :: string
  orderItems :: "order_item list"
  shippingAddress :: shipping_address
  paymentDetails :: payment_details
  totalPrice :: int
  isPaid :: bool
  paidAt :: "nat option"
  isDelivered :: bool
  deliveredAt :: "nat option"
  isCancelled :: bool

record cart_item =
  ci_product :: string
  ci_name :: string
  ci_price :: "int option"
  ci_image :: string
  ci_size :: string
  ci_colorName :: string
  ci_quantity :: int

record cart =
  c_user :: string
  c_items :: "cart_item list"

text \<open>The database: each collection in storage order.\<close>

record db =
  products :: "product list"
  orders :: "order list"
  carts :: "cart list"

section \<open>Libraries and the process environment\<close>

text \<open>
  The Razorpay client, Node's \<open>crypto\<close> and Mongoose's cast of a string to an
  \<open>ObjectId\<close> are libraries, not code of this repository: they are parameters of
  the model. An awaited call returns an object, returns nothing, or throws. The cast
  gives the id's canonical string, or nothing for a string that is no id, in which case
  the query throws a \<open>CastError\<close>.
\<close>

record gateway_order =
  go_id :: string
  go_amount :: int
  go_currency :: string

datatype 'a awaited = Throws | Null | Returned 'a

record env =
  key_id :: string
  key_secret :: string
  hmac_sha256_hex :: "string \<Rightarrow> string \<Rightarrow> string"
  payments_fetch :: "string \<Rightarrow> string option awaited"
  orders_create :: "int \<Rightarrow> gateway_order awaited"
  castObjectId :: "string \<Rightarrow> string option"
  now :: nat
  new_id :: string

section \<open>Numbers\<close>

text \<open>
  Quantities, prices and stocks are JavaScript numbers, that is doubles, with whole
  values here. Every integer of magnitude at most \<open>2^53\<close> is a double, and
  comparison is exact. The sum of two doubles is the exact sum rounded to the nearest
  double, a tie going to the even significand: beyond \<open>2^53\<close> the doubles are
  the multiples of a power of two, 53 bits long. (The largest double is out of reach of
  the quantities here; the database's \<open>$inc\<close> is taken as exact.)
\<close>

fun bit_length :: "nat \<Rightarrow> nat" where
  "bit_length n = (if n = 0 then 0 else Suc (bit_length (n div 2)))"

declare bit_length.simps [simp del]

definition round_to_even :: "nat \<Rightarrow> nat \<Rightarrow> nat" where
  "round_to_even q n =
     (let d = n div q; r = n mod q
      in if 2 * r < q \<or> (2 * r = q \<and> even d) then d * q else (d + 1) * q)"

definition to_double :: "int \<Rightarrow> int" where
  "to_double n =
     (if \<bar>n\<bar> \<le> 2 ^ 53 then n
      else sgn n * int (round_to_even (2 ^ (bit_length (nat \<bar>n\<bar>) - 53)) (nat \<bar>n\<bar>)))"

definition js_add :: "int \<Rightarrow> int \<Rightarrow> int" where
  "js_add a b = to_double (a + b)"

section \<open>Requests and responses\<close>

text \<open>
  A request body is taken at the type its handler goes on with: a body whose
  \<open>items\<close> or \<open>guestCart\<close> is not an array is answered 400 before anything
  else happens. A property that is absent reads as the empty string, or as 0 in an add
  request, whose first check does not tell the two apart; the price of a guest item,
  which no route checks before the cart is saved, is present or not. A response is a
  status code and a JSON body; bodies whose message interpolates values carry those
  values.
\<close>

record 'a validated =
  vd_item :: 'a
  realStock :: int
  hasSufficientStock :: bool
  isLowStock :: "bool option"
  isOutOfStock :: bool

record pick =
  pk_id :: string
  pk_size :: string
  pk_colorName :: string
  pk_quantity :: int

record guest_item =
  gi_productId :: string
  gi_name :: string
  gi_price :: "int option"
  gi_image :: string
  gi_size :: string
  gi_colorName :: string
  gi_quantity :: int

datatype body =
    Message string
  | ProductNotFound string
  | VariantNotFound string string string
  | NotEnoughStock string string string int
  | CannotRepay string string string
  | CannotAdd int int
  | OrderCreated string string string int string string
  | PaymentVerified string string string
  | RepayCreated string string string int string string
  | OrderDoc order
  | CartItems "cart_item list"
  | ValidatedCart "pick validated list" bool
  | ValidatedGuest "guest_item validated list" bool

datatype response = Response nat body

section \<open>Collection operations\<close>

fun update_first :: "('a \<Rightarrow> bool) \<Rightarrow> ('a \<Rightarrow> 'a) \<Rightarrow> 'a list \<Rightarrow> 'a list" where
  "update_first P f [] = []"
| "update_first P f (x # xs) = (if P x then f x # xs else x # update_first P f xs)"

fun delete_first :: "('a \<Rightarrow> bool) \<Rightarrow> 'a list \<Rightarrow> 'a list" where
  "delete_first P [] = []"
| "delete_first P (x # xs) = (if P x then xs else x # delete_first P xs)"

text \<open>
  \<open>findById\<close> with an \<open>ObjectId\<close> from a stored document, and with a string
  from a request, which is cast first.
\<close>

definition Product_byId :: "string \<Rightarrow> product list \<Rightarrow> product option" where
  "Product_byId i ps = find (\<lambda>p. p_id p = i) ps"

definition Product_findById :: "env \<Rightarrow> string \<Rightarrow> product list \<Rightarrow> product awaited" where
  "Product_findById e i ps =
     (case castObjectId e i of
        None \<Rightarrow> Throws
      | Some c \<Rightarrow> (case Product_byId c ps of None \<Rightarrow> Null | Some p \<Rightarrow> Returned p))"

definition Order_byId :: "string \<Rightarrow> order list \<Rightarrow> order option" where
  "Order_byId i os = find (\<lambda>ord. o_id ord = i) os"

definition Order_findById :: "env \<Rightarrow> string \<Rightarrow> order list \<Rightarrow> order awaited" where
  "Order_findById e i os =
     (case castObjectId e i of
        None \<Rightarrow> Throws
      | Some c \<Rightarrow> (case Order_byId c os of None \<Rightarrow> Null | Some ord \<Rightarrow> Returned ord))"

definition Order_save :: "order \<Rightarrow> order list \<Rightarrow> order list" where
  "Order_save ord os =
     (if list_ex (\<lambda>x. o_id x = o_id ord) os
      then update_first (\<lambda>x. o_id x = o_id ord) (\<lambda>_. ord) os
      else os @ [ord])"

definition Order_deleteOne :: "string \<Rightarrow> order list \<Rightarrow> order list" where
  "Order_deleteOne i os = delete_first (\<lambda>x. o_id x = i) os"

text \<open>\<open>product.variants.find(v => v.size === size && v.colorName === colorName)\<close>\<close>

definition variant_matches :: "string \<Rightarrow> string \<Rightarrow> variant \<Rightarrow> bool" where
  "variant_matches sz col v \<longleftrightarrow> v_size v = sz \<and> v_colorName v = col"

definition find_variant :: "product \<Rightarrow> string \<Rightarrow> string \<Rightarrow> variant option" where
  "find_variant p sz col = find (variant_matches sz col) (p_variants p)"

subsection \<open>The batched stock update\<close>

text \<open>
  One \<open>updateOne\<close> of the batch: the filter selects the product with the given
  \<open>_id\<close> that has a variant with the given size and colour (\<open>$elemMatch\<close>), and
  \<open>$inc\<close> on \<open>variants.$.stock\<close> adds to the first such variant. There is no
  condition on the stock. The batch runs the operations in order and reports how many
  filters matched a document.
\<close>

record update_op =
  uo_product :: string
  uo_size :: string
  uo_colorName :: string
  uo_inc :: int

definition op_filter :: "update_op \<Rightarrow> product \<Rightarrow> bool" where
  "op_filter u p \<longleftrightarrow>
     p_id p = uo_product u \<and>
     list_ex (variant_matches (uo_size u) (uo_colorName u)) (p_variants p)"

definition op_update :: "update_op \<Rightarrow> product \<Rightarrow> product" where
  "op_update u p =
     p\<lparr>p_variants :=
         update_first (variant_matches (uo_size u) (uo_colorName u))
           (\<lambda>v. v\<lparr>v_stock := v_stock v + uo_inc u\<rparr>) (p_variants p)\<rparr>"

definition updateOne :: "update_op \<Rightarrow> product list \<Rightarrow> product list \<times> nat" where
  "updateOne u ps =
     (update_first (op_filter u) (op_update u) ps,
      if list_ex (op_filter u) ps then 1 else 0)"

fun bulkWrite :: "update_op list \<Rightarrow> product list \<Rightarrow> product list \<times> nat" where
  "bulkWrite [] ps = (ps, 0)"
| "bulkWrite (u # us) ps =
     (case updateOne u ps of (ps', m) \<Rightarrow>
        (case bulkWrite us ps' of (ps'', n) \<Rightarrow> (ps'', m + n)))"

section \<open>POST /api/orders/verify\<close>

record verify_req =
  vr_user :: string
  razorpay_order_id :: string
  razorpay_payment_id :: string
  razorpay_signature :: string
  order_id :: string

definition decrement_ops :: "order \<Rightarrow> update_op list" where
  "decrement_ops ord =
     map (\<lambda>item. \<lparr>uo_product = oi_product item, uo_size = oi_size item,
                   uo_colorName = oi_colorName item, uo_inc = - oi_quantity item\<rparr>)
         (orderItems ord)"

definition expectedSignature :: "env \<Rightarrow> verify_req \<Rightarrow> string" where
  "expectedSignature e req =
     hmac_sha256_hex e (key_secret e) (razorpay_order_id req @ ''|'' @ razorpay_payment_id req)"

text \<open>
  \<open>vr_user\<close> is the caller the \<open>protect\<close> middleware has authenticated; the
  handler reads the body only. The result of the batch is awaited and dropped.
\<close>

definition verify :: "env \<Rightarrow> verify_req \<Rightarrow> db \<Rightarrow> response \<times> db" where
  "verify e req s =
     (case Order_findById e (order_id req) (orders s) of
        Throws \<Rightarrow> (Response 500 (Message ''Server error''), s)
      | Null \<Rightarrow> (Response 404 (Message ''Order not found''), s)
      | Returned ord \<Rightarrow>
          if isPaid ord then (Response 200 (Message ''Payment already verified''), s)
          else if expectedSignature e req \<noteq> razorpay_signature req
          then (Response 400 (Message ''Payment verification failed: Invalid signature''), s)
          else
            (case payments_fetch e (razorpay_payment_id req) of
               Throws \<Rightarrow> (Response 500 (Message ''Server error''), s)
             | Null \<Rightarrow>
                 (Response 500 (Message ''Error fetching payment details from Razorpay''), s)
             | Returned method \<Rightarrow>
                 let ps' = fst (bulkWrite (decrement_ops ord) (products s));
                     ord' = ord\<lparr>isPaid := True,
                                paidAt := Some (now e),
                                paymentDetails :=
                                  \<lparr>razorpayPaymentId = Some (razorpay_payment_id req),
                                   razorpayOrderId = Some (razorpay_order_id req),
                                   razorpaySignature = Some (razorpay_signature req),
                                   paymentMethod = method\<rparr>\<rparr>
                 in (Response 200
                       (PaymentVerified ''Payment verified successfully''
                          (o_id ord) (razorpay_payment_id req)),
                     s\<lparr>products := ps', orders := Order_save ord' (orders s)\<rparr>)))"

section \<open>POST /api/orders and POST /api/orders/:id/repay\<close>

text \<open>
  The stock check of Create: the first item whose product id is no id, whose product or
  variant is missing, or whose quantity exceeds the variant's stock, ends the request. It
  reads the stock and changes nothing.
\<close>

fun create_stock_check :: "env \<Rightarrow> product list \<Rightarrow> order_item list \<Rightarrow> response option" where
  "create_stock_check e ps [] = None"
| "create_stock_check e ps (item # items) =
     (case Product_findById e (oi_product item) ps of
        Throws \<Rightarrow> Some (Response 500 (Message ''Server error''))
      | Null \<Rightarrow> Some (Response 404 (ProductNotFound (oi_name item)))
      | Returned p \<Rightarrow>
          (case find_variant p (oi_size item) (oi_colorName item) of
             None \<Rightarrow>
               Some (Response 404
                 (VariantNotFound (oi_name item) (oi_size item) (oi_colorName item)))
           | Some v \<Rightarrow>
               if v_stock v < oi_quantity item
               then Some (Response 400
                 (NotEnoughStock (oi_name item) (oi_size item) (oi_colorName item) (v_stock v)))
               else create_stock_check e ps items))"

text \<open>The stock check of Repay reads the items of a stored order.\<close>

fun repay_stock_check :: "product list \<Rightarrow> order_item list \<Rightarrow> response option" where
  "repay_stock_check ps [] = None"
| "repay_stock_check ps (item # items) =
     (case Product_byId (oi_product item) ps of
        None \<Rightarrow> Some (Response 404 (ProductNotFound (oi_name item)))
      | Some p \<Rightarrow>
          (case find_variant p (oi_size item) (oi_colorName item) of
             None \<Rightarrow> Some (Response 404 (VariantNotFound (oi_name item) [] []))
           | Some v \<Rightarrow>
               if v_stock v < oi_quantity item
               then Some (Response 400
                 (CannotRepay (oi_name item) (oi_size item) (oi_colorName item)))
               else repay_stock_check ps items))"

text \<open>
  What \<open>save\<close> validates on a new order: the required strings that the request
  supplies are present (a required string must be non-empty). The user id comes from the
  authenticated session. The product ids are stored as cast.
\<close>

definition order_item_valid :: "order_item \<Rightarrow> bool" where
  "order_item_valid item \<longleftrightarrow>
     oi_name item \<noteq> [] \<and> oi_image item \<noteq> [] \<and> oi_size item \<noteq> [] \<and>
     oi_colorName item \<noteq> [] \<and> oi_product item \<noteq> []"

definition shipping_address_valid :: "shipping_address \<Rightarrow> bool" where
  "shipping_address_valid a \<longleftrightarrow>
     sa_fullName a \<noteq> [] \<and> sa_address a \<noteq> [] \<and> sa_city a \<noteq> [] \<and>
     sa_postalCode a \<noteq> [] \<and> sa_country a \<noteq> [] \<and> sa_phone a \<noteq> []"

definition order_valid :: "order \<Rightarrow> bool" where
  "order_valid ord \<longleftrightarrow>
     list_all order_item_valid (orderItems ord) \<and>
     shipping_address_valid (shippingAddress ord)"

definition toObjectId :: "env \<Rightarrow> string \<Rightarrow> string" where
  "toObjectId e i = (case castObjectId e i of None \<Rightarrow> i | Some c \<Rightarrow> c)"

record create_req =
  cr_user :: string
  cr_orderItems :: "order_item list"
  cr_shippingAddress :: shipping_address
  cr_totalPrice :: int

text \<open>
  Prices are whole numbers here, so \<open>Math.round(totalPrice * 100)\<close> is the product.
  The new document's id is the environment's \<open>new_id\<close>.
\<close>

definition create_order :: "env \<Rightarrow> create_req \<Rightarrow> db \<Rightarrow> response \<times> db" where
  "create_order e req s =
     (case create_stock_check e (products s) (cr_orderItems req) of
        Some r \<Rightarrow> (r, s)
      | None \<Rightarrow>
          (case orders_create e (cr_totalPrice req * 100) of
             Throws \<Rightarrow> (Response 500 (Message ''Server error''), s)
           | Null \<Rightarrow> (Response 500 (Message ''Razorpay order creation failed''), s)
           | Returned razorpayOrder \<Rightarrow>
               let newOrder =
                     \<lparr>o_id = new_id e, o_user = cr_user req,
                      orderItems =
                        map (\<lambda>item. item\<lparr>oi_product := toObjectId e (oi_product item)\<rparr>)
                          (cr_orderItems req),
                      shippingAddress = cr_shippingAddress req,
                      paymentDetails =
                        \<lparr>razorpayPaymentId = None,
                         razorpayOrderId = Some (go_id razorpayOrder),
                         razorpaySignature = None, paymentMethod = None\<rparr>,
                      totalPrice = cr_totalPrice req,
                      isPaid = False, paidAt = None,
                      isDelivered = False, deliveredAt = None,
                      isCancelled = False\<rparr>
               in if \<not> order_valid newOrder
                  then (Response 500 (Message ''Server error''), s)
                  else (Response 201
                          (OrderCreated ''Order created successfully'' (new_id e)
                             (go_id razorpayOrder) (go_amount razorpayOrder)
                             (go_currency razorpayOrder) (key_id e)),
                        s\<lparr>orders := orders s @ [newOrder]\<rparr>)))"

definition repay :: "env \<Rightarrow> string \<Rightarrow> string \<Rightarrow> db \<Rightarrow> response \<times> db" where
  "repay e user i s =
     (case Order_findById e i (orders s) of
        Throws \<Rightarrow> (Response 500 (Message ''Server error''), s)
      | Null \<Rightarrow> (Response 404 (Message ''Order not found''), s)
      | Returned ord \<Rightarrow>
          if o_user ord \<noteq> user then (Response 401 (Message ''Not authorized''), s)
          else if isPaid ord then (Response 400 (Message ''Order is already paid''), s)
          else if isCancelled ord
          then (Response 400 (Message ''This order has been cancelled''), s)
          else
            (case repay_stock_check (products s) (orderItems ord) of
               Some r \<Rightarrow> (r, s)
             | None \<Rightarrow>
                 (case orders_create e (totalPrice ord * 100) of
                    Throws \<Rightarrow> (Response 500 (Message ''Server error''), s)
                  | Null \<Rightarrow> (Response 500 (Message ''Razorpay order creation failed''), s)
                  | Returned razorpayOrder \<Rightarrow>
                      let ord' = ord\<lparr>paymentDetails :=
                                   (paymentDetails ord)
                                     \<lparr>razorpayOrderId := Some (go_id razorpayOrder)\<rparr>\<rparr>
                      in (Response 200
                            (RepayCreated ''Repayment order created'' (o_id ord)
                               (go_id razorpayOrder) (go_amount razorpayOrder)
                               (go_currency razorpayOrder) (key_id e)),
                          s\<lparr>orders := Order_save ord' (orders s)\<rparr>))))"

section \<open>PUT /api/orders/:id/cancel and DELETE /api/orders/:id\<close>

definition cancel :: "env \<Rightarrow> string \<Rightarrow> string \<Rightarrow> db \<Rightarrow> response \<times> db" where
  "cancel e user i s =
     (case Order_findById e i (orders s) of
        Throws \<Rightarrow> (Response 500 (Message ''Server error''), s)
      | Null \<Rightarrow> (Response 404 (Message ''Order not found''), s)
      | Returned ord \<Rightarrow>
          if o_user ord \<noteq> user then (Response 401 (Message ''Not authorized''), s)
          else if isPaid ord then (Response 400 (Message ''Cannot cancel a paid order''), s)
          else
            let updatedOrder = ord\<lparr>isCancelled := True\<rparr>
            in (Response 200 (OrderDoc updatedOrder),
                s\<lparr>orders := Order_save updatedOrder (orders s)\<rparr>))"

definition restock_ops :: "order \<Rightarrow> update_op list" where
  "restock_ops ord =
     map (\<lambda>item. \<lparr>uo_product = oi_product item, uo_size = oi_size item,
                   uo_colorName = oi_colorName item, uo_inc = oi_quantity item\<rparr>)
         (orderItems ord)"

text \<open>
  The route is behind the \<open>admin\<close> middleware; the handler itself takes the id.
  \<open>deleteOne\<close> is given the same id, which is the id of the order found.
\<close>

definition delete_order :: "env \<Rightarrow> string \<Rightarrow> db \<Rightarrow> response \<times> db" where
  "delete_order e i s =
     (case Order_findById e i (orders s) of
        Throws \<Rightarrow> (Response 500 (Message ''Server error''), s)
      | Null \<Rightarrow> (Response 404 (Message ''Order not found''), s)
      | Returned ord \<Rightarrow>
          let ps' = (if isPaid ord \<and> \<not> isCancelled ord
                     then fst (bulkWrite (restock_ops ord) (products s))
                     else products s)
          in (Response 200 (Message ''Order permanently deleted''),
              s\<lparr>products := ps', orders := Order_deleteOne (o_id ord) (orders s)\<rparr>))"

section \<open>Stock validation\<close>

text \<open>
  validate-cart and the cart merge key a variant by the template string
  \<open>`${id}-${size}-${colorName}`\<close>.
\<close>

definition variant_key :: "string \<Rightarrow> string \<Rightarrow> string \<Rightarrow> string" where
  "variant_key i sz col = i @ ''-'' @ sz @ ''-'' @ col"

subsection \<open>POST /api/orders/validate-cart\<close>

text \<open>
  The products named by the picks are loaded in one query, which casts every id and
  throws if one of them is no id. They come in storage order, and every variant's stock
  is stored in a map under its key; a later \<open>set\<close> of the same key replaces the
  earlier one.
\<close>

definition Product_find_in :: "env \<Rightarrow> string list \<Rightarrow> product list \<Rightarrow> product list option" where
  "Product_find_in e productIds ps =
     (case those (map (castObjectId e) productIds) of
        None \<Rightarrow> None
      | Some cs \<Rightarrow> Some (filter (\<lambda>p. p_id p \<in> set cs) ps))"

definition set_variants :: "product \<Rightarrow> (string \<rightharpoonup> int) \<Rightarrow> (string \<rightharpoonup> int)" where
  "set_variants p m =
     fold (\<lambda>v m'. m'(variant_key (p_id p) (v_size v) (v_colorName v) \<mapsto> v_stock v))
       (p_variants p) m"

definition build_stockMap :: "product list \<Rightarrow> (string \<rightharpoonup> int)" where
  "build_stockMap productsFromDB = fold set_variants productsFromDB Map.empty"

text \<open>
  The callback of \<open>items.map\<close>: the annotated item, and the flag
  \<open>canCheckout\<close> after the callback's two assignments to it.
  \<open>stockMap.get(key) || 0\<close> is 0 for a missing key.
\<close>

definition validate_cart_item ::
  "(string \<rightharpoonup> int) \<Rightarrow> pick \<Rightarrow> bool \<Rightarrow> pick validated \<times> bool" where
  "validate_cart_item stockMap cartItem canCheckout =
     (let key = variant_key (pk_id cartItem) (pk_size cartItem) (pk_colorName cartItem);
          realStock = (case stockMap key of None \<Rightarrow> 0 | Some st \<Rightarrow> st);
          hasSufficientStock = (realStock \<ge> pk_quantity cartItem);
          c1 = (if realStock = 0 then False else canCheckout);
          c2 = (if realStock > 0 \<and> \<not> hasSufficientStock then False else c1)
      in (\<lparr>vd_item = cartItem, realStock = realStock,
           hasSufficientStock = hasSufficientStock,
           isLowStock = Some (realStock > 0 \<and> realStock \<le> 3),
           isOutOfStock = (realStock = 0)\<rparr>,
          c2))"

fun validate_items ::
  "(string \<rightharpoonup> int) \<Rightarrow> pick list \<Rightarrow> bool \<Rightarrow> pick validated list \<times> bool" where
  "validate_items stockMap [] canCheckout = ([], canCheckout)"
| "validate_items stockMap (cartItem # rest) canCheckout =
     (case validate_cart_item stockMap cartItem canCheckout of
        (validatedItem, c1) \<Rightarrow>
          (case validate_items stockMap rest c1 of
             (validatedItems, c) \<Rightarrow> (validatedItem # validatedItems, c)))"

definition validate_cart :: "env \<Rightarrow> pick list \<Rightarrow> db \<Rightarrow> response" where
  "validate_cart e items s =
     (let productIds = remdups (map pk_id items)
      in case Product_find_in e productIds (products s) of
           None \<Rightarrow> Response 500 (Message ''Server error'')
         | Some productsFromDB \<Rightarrow>
             (case validate_items (build_stockMap productsFromDB) items True of
                (validatedItems, canCheckout) \<Rightarrow>
                  Response 200 (ValidatedCart validatedItems canCheckout)))"

subsection \<open>POST /api/cart/validate-guest\<close>

definition out_of_stock :: "guest_item \<Rightarrow> guest_item validated" where
  "out_of_stock item =
     \<lparr>vd_item = item, realStock = 0, hasSufficientStock = False,
      isLowStock = None, isOutOfStock = True\<rparr>"

text \<open>
  One guest item: the annotated item and the flag after it. An item without product id,
  size or colour throws inside the callback, as does the query for an id that is no id;
  both are caught inside the callback.
\<close>

definition validate_guest_item ::
  "env \<Rightarrow> product list \<Rightarrow> guest_item \<Rightarrow> bool \<Rightarrow> guest_item validated \<times> bool" where
  "validate_guest_item e ps item canCheckout =
     (if gi_productId item = [] \<or> gi_size item = [] \<or> gi_colorName item = []
      then (out_of_stock item, False)
      else
        (case Product_findById e (gi_productId item) ps of
           Throws \<Rightarrow> (out_of_stock item, False)
         | Null \<Rightarrow> (out_of_stock item, False)
         | Returned p \<Rightarrow>
             (case find_variant p (gi_size item) (gi_colorName item) of
                None \<Rightarrow> (out_of_stock item, False)
              | Some v \<Rightarrow>
                  if v_stock v = 0 then (out_of_stock item, False)
                  else if v_stock v < gi_quantity item
                  then (\<lparr>vd_item = item, realStock = v_stock v,
                         hasSufficientStock = False,
                         isLowStock = Some (v_stock v \<le> 3), isOutOfStock = False\<rparr>,
                        False)
                  else (\<lparr>vd_item = item, realStock = v_stock v,
                         hasSufficientStock = True,
                         isLowStock = Some (v_stock v \<le> 3), isOutOfStock = False\<rparr>,
                        canCheckout))))"

fun validate_guest_items ::
  "env \<Rightarrow> product list \<Rightarrow> guest_item list \<Rightarrow> bool \<Rightarrow> guest_item validated list \<times> bool" where
  "validate_guest_items e ps [] canCheckout = ([], canCheckout)"
| "validate_guest_items e ps (item # rest) canCheckout =
     (case validate_guest_item e ps item canCheckout of
        (validatedItem, c1) \<Rightarrow>
          (case validate_guest_items e ps rest c1 of
             (validatedItems, c) \<Rightarrow> (validatedItem # validatedItems, c)))"

definition validate_guest :: "env \<Rightarrow> guest_item list \<Rightarrow> db \<Rightarrow> response" where
  "validate_guest e guestCart s =
     (case validate_guest_items e (products s) guestCart True of
        (validatedItems, canCheckout) \<Rightarrow>
          Response 200 (ValidatedGuest validatedItems canCheckout))"

section \<open>The cart\<close>

definition Cart_findOne :: "string \<Rightarrow> cart list \<Rightarrow> cart option" where
  "Cart_findOne user cs = find (\<lambda>c. c_user c = user) cs"

definition Cart_save :: "cart \<Rightarrow> cart list \<Rightarrow> cart list" where
  "Cart_save c cs =
     (if list_ex (\<lambda>x. c_user x = c_user c) cs
      then update_first (\<lambda>x. c_user x = c_user c) (\<lambda>_. c) cs
      else cs @ [c])"

text \<open>
  What \<open>save\<close> validates on a cart: every item has its required strings, a
  price and a quantity of at least 1 (\<open>min: 1\<close>). A failed validation throws, and
  the route answers 500 without storing anything.
\<close>

definition cart_item_valid :: "cart_item \<Rightarrow> bool" where
  "cart_item_valid item \<longleftrightarrow>
     ci_product item \<noteq> [] \<and> ci_name item \<noteq> [] \<and> ci_price item \<noteq> None \<and>
     ci_image item \<noteq> [] \<and> ci_size item \<noteq> [] \<and> ci_colorName item \<noteq> [] \<and>
     1 \<le> ci_quantity item"

definition cart_valid :: "cart \<Rightarrow> bool" where
  "cart_valid c \<longleftrightarrow> list_all cart_item_valid (c_items c)"

fun findIndex :: "('a \<Rightarrow> bool) \<Rightarrow> 'a list \<Rightarrow> nat option" where
  "findIndex P [] = None"
| "findIndex P (x # xs) =
     (if P x then Some 0 else map_option Suc (findIndex P xs))"

text \<open>The stored cart of the user, or a new empty one.\<close>

definition get_cart :: "string \<Rightarrow> db \<Rightarrow> cart" where
  "get_cart user s =
     (case Cart_findOne user (carts s) of
        None \<Rightarrow> \<lparr>c_user = user, c_items = []\<rparr>
      | Some c \<Rightarrow> c)"

subsection \<open>POST /api/cart/add\<close>

record add_req =
  ar_productId :: string
  ar_name :: string
  ar_price :: int
  ar_image :: string
  ar_size :: string
  ar_colorName :: string
  ar_quantity :: int

text \<open>
  \<open>item.product.toString() === productId && item.size === size &&
  item.colorName === colorName\<close>: the stored id against the string of the request.
\<close>

definition same_line :: "string \<Rightarrow> string \<Rightarrow> string \<Rightarrow> cart_item \<Rightarrow> bool" where
  "same_line productId sz col item \<longleftrightarrow>
     ci_product item = productId \<and> ci_size item = sz \<and> ci_colorName item = col"

definition cart_add :: "env \<Rightarrow> string \<Rightarrow> add_req \<Rightarrow> db \<Rightarrow> response \<times> db" where
  "cart_add e user req s =
     (if ar_productId req = [] \<or> ar_size req = [] \<or> ar_colorName req = [] \<or>
         ar_quantity req = 0 \<or> ar_name req = [] \<or> ar_price req = 0 \<or> ar_image req = []
      then (Response 400 (Message ''Missing required item properties.''), s)
      else
        (case Product_findById e (ar_productId req) (products s) of
           Throws \<Rightarrow> (Response 500 (Message ''Server Error''), s)
         | Null \<Rightarrow> (Response 404 (Message ''Product not found.''), s)
         | Returned p \<Rightarrow>
             (case find_variant p (ar_size req) (ar_colorName req) of
                None \<Rightarrow> (Response 404 (Message ''Selected variant not found.''), s)
              | Some v \<Rightarrow>
                  let c = get_cart user s;
                      existingItemIndex =
                        findIndex
                          (same_line (ar_productId req) (ar_size req) (ar_colorName req))
                          (c_items c);
                      newQuantity =
                        (case existingItemIndex of
                           None \<Rightarrow> ar_quantity req
                         | Some i \<Rightarrow> js_add (ci_quantity (c_items c ! i)) (ar_quantity req))
                  in if newQuantity > v_stock v
                     then (Response 400 (CannotAdd newQuantity (v_stock v)), s)
                     else
                       let items' =
                             (case existingItemIndex of
                                Some i \<Rightarrow>
                                  (c_items c)
                                    [i := (c_items c ! i)\<lparr>ci_quantity := newQuantity\<rparr>]
                              | None \<Rightarrow>
                                  c_items c @
                                    [\<lparr>ci_product = toObjectId e (ar_productId req),
                                      ci_name = ar_name req,
                                      ci_price = Some (ar_price req),
                                      ci_image = ar_image req,
                                      ci_size = ar_size req,
                                      ci_colorName = ar_colorName req,
                                      ci_quantity = newQuantity\<rparr>]);
                           c' = c\<lparr>c_items := items'\<rparr>
                       in if \<not> cart_valid c'
                          then (Response 500 (Message ''Server Error''), s)
                          else (Response 200 (CartItems items'),
                                s\<lparr>carts := Cart_save c' (carts s)\<rparr>))))"

subsection \<open>POST /api/cart/merge\<close>

definition item_key :: "cart_item \<Rightarrow> string" where
  "item_key item = variant_key (ci_product item) (ci_size item) (ci_colorName item)"

text \<open>
  The body of the loop over the guest cart: the items after it, or nothing when the
  query throws, which ends the loop and the request. \<open>existingItems\<close> is the set of
  keys of the stored cart, computed once before the loop.
\<close>

definition merge_item ::
  "env \<Rightarrow> product list \<Rightarrow> string set \<Rightarrow> guest_item \<Rightarrow> cart_item list \<Rightarrow>
   cart_item list option" where
  "merge_item e ps existingItems guestItem items =
     (if gi_productId guestItem = [] \<or> gi_size guestItem = [] \<or> gi_colorName guestItem = []
      then Some items
      else
        (case Product_findById e (gi_productId guestItem) ps of
           Throws \<Rightarrow> None
         | Null \<Rightarrow> Some items
         | Returned p \<Rightarrow>
             (case find_variant p (gi_size guestItem) (gi_colorName guestItem) of
                None \<Rightarrow> Some items
              | Some v \<Rightarrow>
                  if v_stock v = 0 then Some items
                  else
                    let itemKey = variant_key (gi_productId guestItem) (gi_size guestItem)
                                    (gi_colorName guestItem)
                    in if itemKey \<in> existingItems
                       then
                         (case findIndex (\<lambda>item. item_key item = itemKey) items of
                            None \<Rightarrow> Some items
                          | Some i \<Rightarrow>
                              let newQuantity =
                                    js_add (ci_quantity (items ! i)) (gi_quantity guestItem);
                                  newQuantity' =
                                    (if newQuantity > v_stock v then v_stock v else newQuantity)
                              in Some (items[i := (items ! i)\<lparr>ci_quantity := newQuantity'\<rparr>]))
                       else
                         let newQuantity = gi_quantity guestItem;
                             newQuantity' =
                               (if newQuantity > v_stock v then v_stock v else newQuantity)
                         in Some (items @
                              [\<lparr>ci_product = toObjectId e (gi_productId guestItem),
                                ci_name = gi_name guestItem, ci_price = gi_price guestItem,
                                ci_image = gi_image guestItem, ci_size = gi_size guestItem,
                                ci_colorName = gi_colorName guestItem,
                                ci_quantity = newQuantity'\<rparr>]))))"

fun merge_loop ::
  "env \<Rightarrow> product list \<Rightarrow> string set \<Rightarrow> guest_item list \<Rightarrow> cart_item list \<Rightarrow>
   cart_item list option" where
  "merge_loop e ps existingItems [] items = Some items"
| "merge_loop e ps existingItems (guestItem # rest) items =
     (case merge_item e ps existingItems guestItem items of
        None \<Rightarrow> None
      | Some items' \<Rightarrow> merge_loop e ps existingItems rest items')"

definition cart_merge :: "env \<Rightarrow> string \<Rightarrow> guest_item list \<Rightarrow> db \<Rightarrow> response \<times> db" where
  "cart_merge e user guestCart s =
     (let c = get_cart user s;
          existingItems = set (map item_key (c_items c))
      in case merge_loop e (products s) existingItems guestCart (c_items c) of
           None \<Rightarrow> (Response 500 (Message ''Server Error''), s)
         | Some items' \<Rightarrow>
             let c' = c\<lparr>c_items := items'\<rparr>
             in if \<not> cart_valid c'
                then (Response 500 (Message ''Server Error''), s)
                else (Response 200 (CartItems items'),
                      s\<lparr>carts := Cart_save c' (carts s)\<rparr>))"

section \<open>Observations on the ledger\<close>

text \<open>
  A request id in canonical form: the cast gives the string itself, as it does for the
  ids that the server has sent out.
\<close>

definition canonical :: "env \<Rightarrow> string \<Rightarrow> bool" where
  "canonical e i \<longleftrightarrow> castObjectId e i = Some i"

text \<open>
  The stock a reader sees for a variant: the product is looked up by id and the variant
  by size and colour, as every read path of the routes does.
\<close>

definition variant_stock :: "product list \<Rightarrow> string \<Rightarrow> string \<Rightarrow> string \<Rightarrow> int option" where
  "variant_stock ps i sz col =
     (case Product_byId i ps of
        None \<Rightarrow> None
      | Some p \<Rightarrow> map_option v_stock (find_variant p sz col))"

text \<open>The total quantity an order holds of one variant.\<close>

definition ordered_quantity :: "order \<Rightarrow> string \<Rightarrow> string \<Rightarrow> string \<Rightarrow> int" where
  "ordered_quantity ord i sz col =
     sum_list (map oi_quantity
       (filter (\<lambda>item. oi_product item = i \<and> oi_size item = sz \<and> oi_colorName item = col)
          (orderItems ord)))"

definition op_targets :: "string \<Rightarrow> string \<Rightarrow> string \<Rightarrow> update_op \<Rightarrow> bool" where
  "op_targets i sz col u \<longleftrightarrow> uo_product u = i \<and> uo_size u = sz \<and> uo_colorName u = col"

definition op_total :: "update_op list \<Rightarrow> string \<Rightarrow> string \<Rightarrow> string \<Rightarrow> int" where
  "op_total us i sz col = sum_list (map uo_inc (filter (op_targets i sz col) us))"

text \<open>A ledger as the schema wants it: no stock below zero.\<close>

definition stock_nonneg :: "product list \<Rightarrow> bool" where
  "stock_nonneg ps \<longleftrightarrow> list_all (\<lambda>p. list_all (\<lambda>v. 0 \<le> v_stock v) (p_variants p)) ps"

text \<open>
  A ledger as the data model of the specification has it: the database keeps product ids
  unique, and (size, colorName) is unique within a product.
\<close>

definition ledger_keyed :: "product list \<Rightarrow> bool" where
  "ledger_keyed ps \<longleftrightarrow>
     distinct (map p_id ps) \<and>
     list_all (\<lambda>p. distinct (map (\<lambda>v. (v_size v, v_colorName v)) (p_variants p))) ps"

text \<open>A ledger whose stocks are integers that sums of doubles reach exactly.\<close>

definition stock_safe :: "product list \<Rightarrow> bool" where
  "stock_safe ps \<longleftrightarrow> list_all (\<lambda>p. list_all (\<lambda>v. v_stock v \<le> 2 ^ 53) (p_variants p)) ps"

text \<open>
  The stock the ledger holds for a pick (product id, size, colour): that of the variant
  the pick names, and 0 when it names none, be it that the id is no id, that no product
  has it, or that the product has no such variant.
\<close>

definition ledger_stock :: "env \<Rightarrow> product list \<Rightarrow> string \<Rightarrow> string \<Rightarrow> string \<Rightarrow> int" where
  "ledger_stock e ps i sz col =
     (case castObjectId e i of
        None \<Rightarrow> 0
      | Some c \<Rightarrow> (case variant_stock ps c sz col of None \<Rightarrow> 0 | Some st \<Rightarrow> st))"

section \<open>Observations on validation\<close>

text \<open>
  The classification rules of the specification, for a pick of quantity \<open>q\<close>:
  no stock means out of stock and not sufficient; a positive stock below the quantity
  means not out of stock, not sufficient, and low when at most 3; a stock of at least the
  quantity means sufficient, and low when at most 3.
\<close>

definition follows_rules :: "int \<Rightarrow> 'a validated \<Rightarrow> bool" where
  "follows_rules q a \<longleftrightarrow>
     (realStock a = 0 \<longrightarrow> isOutOfStock a \<and> \<not> hasSufficientStock a) \<and>
     (0 < realStock a \<and> realStock a < q \<longrightarrow>
        \<not> isOutOfStock a \<and> \<not> hasSufficientStock a \<and> isLowStock a = Some (realStock a \<le> 3)) \<and>
     (q \<le> realStock a \<longrightarrow> hasSufficientStock a \<and> isLowStock a = Some (realStock a \<le> 3))"

text \<open>What \<open>stockMap.get(key) || 0\<close> gives for a pick.\<close>

definition looked_up :: "(string \<rightharpoonup> int) \<Rightarrow> pick \<Rightarrow> int" where
  "looked_up m x =
     (case m (variant_key (pk_id x) (pk_size x) (pk_colorName x)) of
        None \<Rightarrow> 0
      | Some st \<Rightarrow> st)"

text \<open>
  A string without the separator of the key template. Where product ids and sizes are
  such strings, two keys are equal only if product, size and colour are.
\<close>

definition dash_free :: "string \<Rightarrow> bool" where
  "dash_free x \<longleftrightarrow> CHR ''-'' \<notin> set x"

definition ledger_dash_free :: "product list \<Rightarrow> bool" where
  "ledger_dash_free ps \<longleftrightarrow>
     list_all (\<lambda>p. dash_free (p_id p) \<and> list_all (\<lambda>v. dash_free (v_size v)) (p_variants p)) ps"

text \<open>No product with this id has a variant of this size and colour.\<close>

definition no_such_variant :: "product list \<Rightarrow> string \<Rightarrow> string \<Rightarrow> string \<Rightarrow> bool" where
  "no_such_variant ps i sz col \<longleftrightarrow>
     list_all (\<lambda>p. p_id p = i \<longrightarrow> \<not> list_ex (variant_matches sz col) (p_variants p)) ps"

text \<open>The annotation of validate-cart for a pick it finds no stock for.\<close>

definition cart_out_of_stock :: "pick \<Rightarrow> pick validated" where
  "cart_out_of_stock x =
     \<lparr>vd_item = x, realStock = 0, hasSufficientStock = False,
      isLowStock = Some False, isOutOfStock = True\<rparr>"

section \<open>Observations on the cart\<close>

text \<open>
  The identity of a cart line is the tuple (product, size, colorName). For an add
  request: the lines of its tuple, the line a new tuple gets, and the request with every
  required property present (what the route's first check and the schema's
  \<open>min: 1\<close> on the quantity ask for) and its product id in canonical form.
\<close>

definition req_line :: "add_req \<Rightarrow> cart_item \<Rightarrow> bool" where
  "req_line req = same_line (ar_productId req) (ar_size req) (ar_colorName req)"

definition add_quantity :: "int \<Rightarrow> cart_item \<Rightarrow> cart_item" where
  "add_quantity q l = l\<lparr>ci_quantity := ci_quantity l + q\<rparr>"

definition req_item :: "add_req \<Rightarrow> cart_item" where
  "req_item req =
     \<lparr>ci_product = ar_productId req, ci_name = ar_name req, ci_price = Some (ar_price req),
      ci_image = ar_image req, ci_size = ar_size req, ci_colorName = ar_colorName req,
      ci_quantity = ar_quantity req\<rparr>"

definition add_well_formed :: "env \<Rightarrow> add_req \<Rightarrow> bool" where
  "add_well_formed e req \<longleftrightarrow>
     canonical e (ar_productId req) \<and>
     ar_productId req \<noteq> [] \<and> ar_size req \<noteq> [] \<and> ar_colorName req \<noteq> [] \<and>
     ar_name req \<noteq> [] \<and> ar_image req \<noteq> [] \<and> ar_price req \<noteq> 0 \<and> 1 \<le> ar_quantity req"

text \<open>
  The claim's words for add: the merged quantity is the request's quantity plus that of
  the line already present, and the upsert replaces that line's quantity by the sum or
  appends a new line.
\<close>

definition merged_quantity :: "add_req \<Rightarrow> cart_item list \<Rightarrow> int" where
  "merged_quantity req items =
     (case find (req_line req) items of
        None \<Rightarrow> ar_quantity req
      | Some l \<Rightarrow> ci_quantity l + ar_quantity req)"

definition upsert :: "add_req \<Rightarrow> cart_item list \<Rightarrow> cart_item list" where
  "upsert req items =
     (if list_ex (req_line req) items
      then update_first (req_line req) (add_quantity (ar_quantity req)) items
      else items @ [req_item req])"

text \<open>
  The claim's words for one guest item of a merge into the cart as it stands when the
  item's turn comes. An item that names no product, size or colour refers to no variant
  and is skipped like one whose product or variant is gone or out of stock; an item whose
  tuple is a line of the cart has its quantity added to the first such line, clamped to
  the stock; any other item becomes a new line with its quantity clamped to the stock.
\<close>

definition guest_line :: "guest_item \<Rightarrow> cart_item \<Rightarrow> bool" where
  "guest_line g = same_line (gi_productId g) (gi_size g) (gi_colorName g)"

definition guest_to_line :: "guest_item \<Rightarrow> int \<Rightarrow> cart_item" where
  "guest_to_line g q =
     \<lparr>ci_product = gi_productId g, ci_name = gi_name g, ci_price = gi_price g,
      ci_image = gi_image g, ci_size = gi_size g, ci_colorName = gi_colorName g,
      ci_quantity = q\<rparr>"

definition clamp_sum :: "guest_item \<Rightarrow> int \<Rightarrow> cart_item \<Rightarrow> cart_item" where
  "clamp_sum g st l = l\<lparr>ci_quantity := min (ci_quantity l + gi_quantity g) st\<rparr>"

definition merged_item :: "product list \<Rightarrow> guest_item \<Rightarrow> cart_item list \<Rightarrow> cart_item list" where
  "merged_item ps g items =
     (if gi_productId g = [] \<or> gi_size g = [] \<or> gi_colorName g = [] then items
      else
        (case variant_stock ps (gi_productId g) (gi_size g) (gi_colorName g) of
           None \<Rightarrow> items
         | Some st \<Rightarrow>
             if st = 0 then items
             else if list_ex (guest_line g) items
             then update_first (guest_line g) (clamp_sum g st) items
             else items @ [guest_to_line g (min (gi_quantity g) st)]))"

text \<open>
  A guest item as the cart schema wants its line (a quantity of at least 1, a name, an
  image and a price), whose product id is in canonical form and, like its size, does not
  contain the separator of the key.
\<close>

definition guest_ok :: "env \<Rightarrow> guest_item \<Rightarrow> bool" where
  "guest_ok e g \<longleftrightarrow>
     canonical e (gi_productId g) \<and>
     1 \<le> gi_quantity g \<and> gi_name g \<noteq> [] \<and> gi_image g \<noteq> [] \<and> gi_price g \<noteq> None \<and>
     dash_free (gi_productId g) \<and> dash_free (gi_size g)"

definition guest_tuple :: "guest_item \<Rightarrow> string \<times> string \<times> string" where
  "guest_tuple g = (gi_productId g, gi_size g, gi_colorName g)"

definition line_dash_free :: "cart_item \<Rightarrow> bool" where
  "line_dash_free l \<longleftrightarrow> dash_free (ci_product l) \<and> dash_free (ci_size l)"

section \<open>A small shop\<close>

text \<open>
  Concrete data for the scenarios below. The stand-in for the cast accepts the strings
  of 24 hexadecimal digits in either case and gives them in lower case, the canonical
  form; the stand-in for the HMAC is the secret, a colon and the message. The shop has one product with the variant
  (M, Black) and a customer who orders two of it.
\<close>

definition lower_hex :: "char \<Rightarrow> char option" where
  "lower_hex c =
     (if c \<in> set ''0123456789abcdef'' then Some c
      else map_of (zip ''ABCDEF'' ''abcdef'') c)"

definition object_id_string :: "string \<Rightarrow> string option" where
  "object_id_string x = (if length x = 24 then those (map lower_hex x) else None)"

definition p1 :: string where
  "p1 = ''65a1b2c3d4e5f6a7b8c9d001''"

definition P1_upper :: string where
  "P1_upper = ''65A1B2C3D4E5F6A7B8C9D001''"

definition p9 :: string where
  "p9 = ''65a1b2c3d4e5f6a7b8c9d009''"

definition o1 :: string where
  "o1 = ''66b1c2d3e4f5a6b7c8d9e001''"

definition o2 :: string where
  "o2 = ''66b1c2d3e4f5a6b7c8d9e002''"

definition o3 :: string where
  "o3 = ''66b1c2d3e4f5a6b7c8d9e003''"

definition shop_env :: env where
  "shop_env =
     \<lparr>key_id = ''rzp_key'', key_secret = ''secret'',
      hmac_sha256_hex = (\<lambda>k m. k @ '':'' @ m),
      payments_fetch = (\<lambda>_. Returned (Some ''upi'')),
      orders_create =
        (\<lambda>a. Returned \<lparr>go_id = ''gw_1'', go_amount = a, go_currency = ''INR''\<rparr>),
      castObjectId = object_id_string,
      now = 1000, new_id = o1\<rparr>"

definition shirt :: "int \<Rightarrow> product" where
  "shirt n =
     \<lparr>p_id = p1, p_name = ''Shirt'',
      p_variants =
        [\<lparr>v_size = ''M'', v_colorName = ''Black'', v_colorHex = ''#000000'', v_stock = n\<rparr>]\<rparr>"

definition two_shirts :: order_item where
  "two_shirts =
     \<lparr>oi_name = ''Shirt'', oi_quantity = 2, oi_price = 499, oi_image = ''s.png'',
      oi_size = ''M'', oi_colorName = ''Black'', oi_product = p1\<rparr>"

definition home :: shipping_address where
  "home =
     \<lparr>sa_fullName = ''A'', sa_address = ''1 Road'', sa_city = ''Pune'',
      sa_postalCode = ''411001'', sa_country = ''India'', sa_phone = ''123''\<rparr>"

definition shop :: db where
  "shop = \<lparr>products = [shirt 3], orders = [], carts = []\<rparr>"

definition checkout :: create_req where
  "checkout =
     \<lparr>cr_user = ''alice'', cr_orderItems = [two_shirts], cr_shippingAddress = home,
      cr_totalPrice = 998\<rparr>"

definition pay :: "string \<Rightarrow> string \<Rightarrow> string \<Rightarrow> verify_req" where
  "pay user i sig =
     \<lparr>vr_user = user, razorpay_order_id = ''gw_1'', razorpay_payment_id = ''pay_1'',
      razorpay_signature = sig, order_id = i\<rparr>"

definition pending :: "string \<Rightarrow> order" where
  "pending i =
     \<lparr>o_id = i, o_user = ''alice'', orderItems = [two_shirts], shippingAddress = home,
      paymentDetails =
        \<lparr>razorpayPaymentId = None, razorpayOrderId = Some ''gw_1'',
         razorpaySignature = None, paymentMethod = None\<rparr>,
      totalPrice = 998, isPaid = False, paidAt = None,
      isDelivered = False, deliveredAt = None, isCancelled = False\<rparr>"

definition paid :: "string \<Rightarrow> order" where
  "paid i =
     (pending i)
       \<lparr>isPaid := True, paidAt := Some 1000,
        paymentDetails :=
          \<lparr>razorpayPaymentId = Some ''pay_1'', razorpayOrderId = Some ''gw_1'',
           razorpaySignature = Some ''secret:gw_1|pay_1'', paymentMethod = Some ''upi''\<rparr>\<rparr>"

text \<open>
  A product with two sizes, whose M variant has the given colour, and an order of two M
  and one L in Black.
\<close>

definition one_large :: order_item where
  "one_large =
     \<lparr>oi_name = ''Shirt'', oi_quantity = 1, oi_price = 499, oi_image = ''s.png'',
      oi_size = ''L'', oi_colorName = ''Black'', oi_product = p1\<rparr>"

definition two_sizes :: "string \<Rightarrow> product" where
  "two_sizes col =
     \<lparr>p_id = p1, p_name = ''Shirt'',
      p_variants =
        [\<lparr>v_size = ''M'', v_colorName = col, v_colorHex = ''#000000'', v_stock = 3\<rparr>,
         \<lparr>v_size = ''L'', v_colorName = ''Black'', v_colorHex = ''#000000'', v_stock = 5\<rparr>]\<rparr>"

definition mixed :: order where
  "mixed = (pending o3)\<lparr>orderItems := [two_shirts, one_large]\<rparr>"

definition wardrobe :: "string \<Rightarrow> db" where
  "wardrobe col = \<lparr>products = [two_sizes col], orders = [mixed], carts = []\<rparr>"

text \<open>
  Picks against the shop: two shirts (in stock), five shirts (three in stock), and a
  product that does not exist. Products whose sizes or colours contain the separator.
\<close>

definition picked :: "string \<Rightarrow> string \<Rightarrow> string \<Rightarrow> int \<Rightarrow> pick" where
  "picked i sz col q = \<lparr>pk_id = i, pk_size = sz, pk_colorName = col, pk_quantity = q\<rparr>"

definition basket :: "pick list" where
  "basket = [picked p1 ''M'' ''Black'' 2, picked p1 ''M'' ''Black'' 5, picked p9 ''S'' ''Red'' 1]"

definition guest_pick :: "string \<Rightarrow> string \<Rightarrow> string \<Rightarrow> int \<Rightarrow> guest_item" where
  "guest_pick i sz col q =
     \<lparr>gi_productId = i, gi_name = ''Shirt'', gi_price = Some 499, gi_image = ''s.png'',
      gi_size = sz, gi_colorName = col, gi_quantity = q\<rparr>"

definition guest_basket :: "guest_item list" where
  "guest_basket =
     [guest_pick p1 ''M'' ''Black'' 2, guest_pick p1 ''M'' ''Black'' 5,
      guest_pick p9 ''S'' ''Red'' 1]"

definition hyphenated :: product where
  "hyphenated =
     \<lparr>p_id = p1, p_name = ''Shirt'',
      p_variants =
        [\<lparr>v_size = ''M-L'', v_colorName = ''Black'', v_colorHex = ''#000000'', v_stock = 5\<rparr>]\<rparr>"

definition uneven_splits :: product where
  "uneven_splits =
     \<lparr>p_id = p1, p_name = ''Shirt'',
      p_variants =
        [\<lparr>v_size = ''M-L'', v_colorName = ''Black'', v_colorHex = ''#000000'', v_stock = 5\<rparr>,
         \<lparr>v_size = ''M'', v_colorName = ''L-Black'', v_colorHex = ''#000000'', v_stock = 2\<rparr>]\<rparr>"

definition twice_listed :: product where
  "twice_listed =
     \<lparr>p_id = p1, p_name = ''Shirt'',
      p_variants =
        [\<lparr>v_size = ''M'', v_colorName = ''Black'', v_colorHex = ''#000000'', v_stock = 0\<rparr>,
         \<lparr>v_size = ''M'', v_colorName = ''Black'', v_colorHex = ''#000000'', v_stock = 5\<rparr>]\<rparr>"

definition two_splits :: product where
  "two_splits =
     \<lparr>p_id = p1, p_name = ''Shirt'',
      p_variants =
        [\<lparr>v_size = ''M-L'', v_colorName = ''Black'', v_colorHex = ''#000000'', v_stock = 5\<rparr>,
         \<lparr>v_size = ''M'', v_colorName = ''L-Black'', v_colorHex = ''#000000'', v_stock = 5\<rparr>]\<rparr>"

text \<open>Requests, lines and carts of the customer.\<close>

definition add_shirts :: "int \<Rightarrow> add_req" where
  "add_shirts q =
     \<lparr>ar_productId = p1, ar_name = ''Shirt'', ar_price = 499, ar_image = ''s.png'',
      ar_size = ''M'', ar_colorName = ''Black'', ar_quantity = q\<rparr>"

definition shirt_line :: "string \<Rightarrow> string \<Rightarrow> int \<Rightarrow> cart_item" where
  "shirt_line sz col q =
     \<lparr>ci_product = p1, ci_name = ''Shirt'', ci_price = Some 499, ci_image = ''s.png'',
      ci_size = sz, ci_colorName = col, ci_quantity = q\<rparr>"

definition cart_of :: "cart_item list \<Rightarrow> cart" where
  "cart_of items = \<lparr>c_user = ''alice'', c_items = items\<rparr>"

definition guest_cart :: "guest_item list" where
  "guest_cart =
     [guest_pick p1 ''M'' ''Black'' 4, guest_pick p1 ''L'' ''Black'' 7,
      guest_pick p9 ''S'' ''Red'' 1, guest_pick p1 ''XL'' ''Black'' 1]"

lemmas shop_defs =
  lower_hex_def object_id_string_def p1_def P1_upper_def p9_def o1_def o2_def o3_def
  shop_env_def shirt_def two_shirts_def home_def shop_def checkout_def pay_def
  pending_def paid_def one_large_def two_sizes_def mixed_def wardrobe_def
  picked_def basket_def guest_pick_def guest_basket_def hyphenated_def two_splits_def
  uneven_splits_def twice_listed_def
  add_shirts_def shirt_line_def cart_of_def guest_cart_def

lemmas order_route_defs =
  create_order_def verify_def repay_def cancel_def delete_order_def
  Order_findById_def Order_byId_def Order_save_def Order_deleteOne_def
  Product_findById_def Product_byId_def find_variant_def variant_matches_def
  decrement_ops_def restock_ops_def expectedSignature_def toObjectId_def
  updateOne_def op_filter_def op_update_def
  order_valid_def order_item_valid_def shipping_address_valid_def

lemmas validate_defs =
  validate_cart_def validate_cart_item_def Product_find_in_def build_stockMap_def
  set_variants_def variant_key_def
  validate_guest_def validate_guest_item_def out_of_stock_def cart_out_of_stock_def
  Product_findById_def Product_byId_def find_variant_def variant_matches_def

lemmas cart_defs =
  cart_add_def cart_merge_def merge_item_def get_cart_def Cart_findOne_def Cart_save_def
  cart_valid_def cart_item_valid_def same_line_def item_key_def variant_key_def
  Product_findById_def Product_byId_def find_variant_def variant_matches_def
  toObjectId_def

lemmas observation_defs =
  canonical_def variant_stock_def ordered_quantity_def stock_nonneg_def follows_rules_def
  dash_free_def ledger_dash_free_def no_such_variant_def
  req_line_def add_quantity_def req_item_def add_well_formed_def merged_quantity_def
  upsert_def guest_line_def guest_to_line_def clamp_sum_def merged_item_def guest_ok_def
  line_dash_free_def guest_tuple_def ledger_keyed_def stock_safe_def ledger_stock_def

section \<open>Facts about the collections\<close>

lemma find_Some_holds: "find P xs = Some x \<Longrightarrow> P x"
  by (induction xs) (auto split: if_splits)

lemma find_Some_mem: "find P xs = Some x \<Longrightarrow> x \<in> set xs"
  by (induction xs) (auto split: if_splits)

lemma list_ex_find: "list_ex P xs \<longleftrightarrow> find P xs \<noteq> None"
  by (induction xs) auto

lemma Order_findById_Returned:
  "Order_findById e i os = Returned ord \<longleftrightarrow>
     (\<exists>c. castObjectId e i = Some c \<and> Order_byId c os = Some ord)"
  by (auto simp: Order_findById_def split: option.splits)

lemma Order_byId_id: "Order_byId c os = Some ord \<Longrightarrow> o_id ord = c"
  unfolding Order_byId_def by (rule find_Some_holds)

lemma Order_findById_cast:
  "Order_findById e i os = Returned ord \<Longrightarrow> castObjectId e i = Some (o_id ord)"
  by (auto simp: Order_findById_Returned dest: Order_byId_id)

lemma Order_byId_save: "Order_byId (o_id ord) (Order_save ord os) = Some ord"
  unfolding Order_byId_def Order_save_def
  by (induction os) auto

lemma Order_findById_save:
  "castObjectId e i = Some (o_id ord) \<Longrightarrow> Order_findById e i (Order_save ord os) = Returned ord"
  by (simp add: Order_findById_def Order_byId_save)

lemma Product_findById_canonical:
  "canonical e i \<Longrightarrow>
     Product_findById e i ps = (case Product_byId i ps of None \<Rightarrow> Null | Some p \<Rightarrow> Returned p)"
  by (simp add: Product_findById_def canonical_def)

lemma toObjectId_canonical: "canonical e i \<Longrightarrow> toObjectId e i = i"
  by (simp add: toObjectId_def canonical_def)

section \<open>Verify\<close>

lemma verify_paid:
  assumes "Order_findById e (order_id req) (orders s) = Returned ord" "isPaid ord"
  shows "verify e req s = (Response 200 (Message ''Payment already verified''), s)"
  using assms by (simp add: verify_def)

lemma verify_first:
  assumes "Order_findById e (order_id req) (orders s) = Returned ord" "\<not> isPaid ord"
    "razorpay_signature req = expectedSignature e req"
    "payments_fetch e (razorpay_payment_id req) = Returned m"
  shows "verify e req s =
    (Response 200
       (PaymentVerified ''Payment verified successfully'' (o_id ord) (razorpay_payment_id req)),
     s\<lparr>products := fst (bulkWrite (decrement_ops ord) (products s)),
       orders := Order_save
         (ord\<lparr>isPaid := True, paidAt := Some (now e),
              paymentDetails :=
                \<lparr>razorpayPaymentId = Some (razorpay_payment_id req),
                 razorpayOrderId = Some (razorpay_order_id req),
                 razorpaySignature = Some (razorpay_signature req),
                 paymentMethod = m\<rparr>\<rparr>) (orders s)\<rparr>)"
  using assms by (simp add: verify_def Let_def)

text \<open>
  C1. The claim is that no sequence of the program's operations leaves a stock below
  zero. The decrement of Verify carries no condition on the stock, and Create checks the
  stock without reserving it: two checkouts of two shirts are both accepted while three
  are in stock, and verifying both payments leaves the variant at -1.
\<close>

theorem verify_drives_stock_negative:
  "variant_stock
     (products (snd (verify shop_env (pay ''alice'' o2 ''secret:gw_1|pay_1'')
        (snd (verify shop_env (pay ''alice'' o1 ''secret:gw_1|pay_1'')
           (snd (create_order (shop_env\<lparr>new_id := o2\<rparr>) checkout
              (snd (create_order shop_env checkout shop)))))))))
     p1 ''M'' ''Black'' = Some (- 1)"
  by (simp add: shop_defs order_route_defs variant_stock_def)

text \<open>
  C2. Verify is idempotent. For an order that is already paid, Verify answers with
  success and returns the database as it was, so no stock is decremented and the order's
  payment details, \<open>isPaid\<close> and \<open>paidAt\<close> stay as they are. For an unpaid order
  and a request with the expected signature whose payment the gateway returns, the first
  call applies the batch of decrements once and a second call, at whatever time, answers
  with success and changes nothing.
\<close>

theorem verify_idempotent:
  assumes found: "Order_findById e (order_id req) (orders s) = Returned ord"
  shows "(isPaid ord \<longrightarrow>
            verify e req s = (Response 200 (Message ''Payment already verified''), s)) \<and>
         (\<not> isPaid ord \<and> razorpay_signature req = expectedSignature e req \<and>
          payments_fetch e (razorpay_payment_id req) = Returned m \<longrightarrow>
            fst (verify e req s) =
              Response 200 (PaymentVerified ''Payment verified successfully''
                 (o_id ord) (razorpay_payment_id req)) \<and>
            products (snd (verify e req s)) =
              fst (bulkWrite (decrement_ops ord) (products s)) \<and>
            verify (e\<lparr>now := t\<rparr>) req (snd (verify e req s)) =
              (Response 200 (Message ''Payment already verified''), snd (verify e req s)))"
proof (intro conjI impI)
  assume "isPaid ord"
  with found show "verify e req s = (Response 200 (Message ''Payment already verified''), s)"
    by (rule verify_paid)
next
  assume a: "\<not> isPaid ord \<and> razorpay_signature req = expectedSignature e req \<and>
          payments_fetch e (razorpay_payment_id req) = Returned m"
  note v = verify_first [OF found, of m]
  from a v show "fst (verify e req s) =
              Response 200 (PaymentVerified ''Payment verified successfully''
                 (o_id ord) (razorpay_payment_id req))"
    by simp
  from a v show "products (snd (verify e req s)) =
      fst (bulkWrite (decrement_ops ord) (products s))"
    by simp
  let ?ord' = "ord\<lparr>isPaid := True, paidAt := Some (now e),
              paymentDetails :=
                \<lparr>razorpayPaymentId = Some (razorpay_payment_id req),
                 razorpayOrderId = Some (razorpay_order_id req),
                 razorpaySignature = Some (razorpay_signature req),
                 paymentMethod = m\<rparr>\<rparr>"
  have "castObjectId (e\<lparr>now := t\<rparr>) (order_id req) = Some (o_id ?ord')"
    using Order_findById_cast [OF found] by simp
  then have "Order_findById (e\<lparr>now := t\<rparr>) (order_id req) (Order_save ?ord' (orders s)) =
      Returned ?ord'"
    by (rule Order_findById_save)
  then have "Order_findById (e\<lparr>now := t\<rparr>) (order_id req) (orders (snd (verify e req s))) =
      Returned ?ord'"
    using a v by simp
  then show "verify (e\<lparr>now := t\<rparr>) req (snd (verify e req s)) =
              (Response 200 (Message ''Payment already verified''), snd (verify e req s))"
    by (rule verify_paid) simp
qed

text \<open>
  The scenario of the specification: stock 3, a checkout of 2; after the first Verify the
  stock is 1 and the order is paid, and after the second it is still 1. The second
  conjunct is the paid branch on its own.
\<close>

theorem verify_idempotent_witness:
  "Order_findById shop_env (order_id (pay ''alice'' o1 ''secret:gw_1|pay_1''))
     (orders (shop\<lparr>orders := [pending o1]\<rparr>)) = Returned (pending o1) \<and>
   \<not> isPaid (pending o1) \<and>
   razorpay_signature (pay ''alice'' o1 ''secret:gw_1|pay_1'') =
     expectedSignature shop_env (pay ''alice'' o1 ''secret:gw_1|pay_1'') \<and>
   payments_fetch shop_env (razorpay_payment_id (pay ''alice'' o1 ''secret:gw_1|pay_1'')) =
     Returned (Some ''upi'') \<and>
   snd (verify shop_env (pay ''alice'' o1 ''secret:gw_1|pay_1'') (shop\<lparr>orders := [pending o1]\<rparr>)) =
     shop\<lparr>products := [shirt 1], orders := [paid o1]\<rparr> \<and>
   verify (shop_env\<lparr>now := 2000\<rparr>) (pay ''alice'' o1 ''secret:gw_1|pay_1'')
     (shop\<lparr>products := [shirt 1], orders := [paid o1]\<rparr>) =
     (Response 200 (Message ''Payment already verified''),
      shop\<lparr>products := [shirt 1], orders := [paid o1]\<rparr>) \<and>
   Order_findById shop_env (order_id (pay ''alice'' o1 ''secret:gw_1|pay_1''))
     (orders (shop\<lparr>orders := [paid o1]\<rparr>)) = Returned (paid o1) \<and>
   isPaid (paid o1) \<and>
   verify shop_env (pay ''alice'' o1 ''secret:gw_1|pay_1'') (shop\<lparr>orders := [paid o1]\<rparr>) =
     (Response 200 (Message ''Payment already verified''), shop\<lparr>orders := [paid o1]\<rparr>)"
proof -
  let ?s = "shop\<lparr>orders := [pending o1]\<rparr>"
  let ?t = "shop\<lparr>orders := [paid o1]\<rparr>"
  let ?req = "pay ''alice'' o1 ''secret:gw_1|pay_1''"
  have f1: "Order_findById shop_env (order_id ?req) (orders ?s) = Returned (pending o1)"
    by (simp add: shop_defs Order_findById_def Order_byId_def)
  have f2: "Order_findById shop_env (order_id ?req) (orders ?t) = Returned (paid o1)"
    by (simp add: shop_defs Order_findById_def Order_byId_def)
  have h: "\<not> isPaid (pending o1) \<and>
       razorpay_signature ?req = expectedSignature shop_env ?req \<and>
       payments_fetch shop_env (razorpay_payment_id ?req) = Returned (Some ''upi'')"
    by (simp add: shop_defs expectedSignature_def)
  have s1: "snd (verify shop_env ?req ?s) = shop\<lparr>products := [shirt 1], orders := [paid o1]\<rparr>"
    by (simp add: shop_defs order_route_defs)
  have p: "isPaid (paid o1)"
    by (simp add: shop_defs)
  from verify_idempotent [OF f1, of "Some ''upi''" 2000] h
  have "verify (shop_env\<lparr>now := 2000\<rparr>) ?req (snd (verify shop_env ?req ?s)) =
        (Response 200 (Message ''Payment already verified''), snd (verify shop_env ?req ?s))"
    by blast
  moreover from verify_idempotent [OF f2] p
  have "verify shop_env ?req ?t = (Response 200 (Message ''Payment already verified''), ?t)"
    by blast
  ultimately show ?thesis
    using f1 f2 h s1 p by simp
qed

text \<open>
  C3. For an unpaid order and a request whose signature differs from the hex HMAC-SHA256
  of \<open>razorpay_order_id + "|" + razorpay_payment_id\<close> under the gateway secret, Verify
  answers 400 with the signature-mismatch message and returns the database unchanged: no
  stock is decremented and the order record is as before.
\<close>

theorem verify_signature_mismatch:
  assumes "Order_findById e (order_id req) (orders s) = Returned ord" and "\<not> isPaid ord"
    and "razorpay_signature req \<noteq>
           hmac_sha256_hex e (key_secret e)
             (razorpay_order_id req @ ''|'' @ razorpay_payment_id req)"
  shows "verify e req s =
           (Response 400 (Message ''Payment verification failed: Invalid signature''), s)"
  using assms by (auto simp add: verify_def expectedSignature_def)

theorem verify_signature_mismatch_witness:
  "Order_findById shop_env (order_id (pay ''alice'' o1 ''forged''))
     (orders (shop\<lparr>orders := [pending o1]\<rparr>)) = Returned (pending o1) \<and>
   \<not> isPaid (pending o1) \<and>
   razorpay_signature (pay ''alice'' o1 ''forged'') \<noteq>
     hmac_sha256_hex shop_env (key_secret shop_env)
       (razorpay_order_id (pay ''alice'' o1 ''forged'') @ ''|'' @
        razorpay_payment_id (pay ''alice'' o1 ''forged'')) \<and>
   verify shop_env (pay ''alice'' o1 ''forged'') (shop\<lparr>orders := [pending o1]\<rparr>) =
     (Response 400 (Message ''Payment verification failed: Invalid signature''),
      shop\<lparr>orders := [pending o1]\<rparr>)"
proof -
  let ?s = "shop\<lparr>orders := [pending o1]\<rparr>"
  let ?req = "pay ''alice'' o1 ''forged''"
  have f: "Order_findById shop_env (order_id ?req) (orders ?s) = Returned (pending o1)"
    by (simp add: shop_defs Order_findById_def Order_byId_def)
  have u: "\<not> isPaid (pending o1)"
    by (simp add: shop_defs)
  have g: "razorpay_signature ?req \<noteq>
         hmac_sha256_hex shop_env (key_secret shop_env)
           (razorpay_order_id ?req @ ''|'' @ razorpay_payment_id ?req)"
    by (simp add: shop_defs)
  from verify_signature_mismatch [OF f u g] f u g show ?thesis
    by simp
qed

text \<open>
  C10. Verify has no ownership check: its outcome does not depend on the caller, and a
  caller who is not the order's user gets an unpaid order verified when the signature and
  the payment are good. Cancel and Repay, in contrast, answer 401 to any caller who is not
  the order's user and change nothing.
\<close>

theorem verify_ignores_caller:
  "verify e (req\<lparr>vr_user := a\<rparr>) s = verify e (req\<lparr>vr_user := b\<rparr>) s \<and>
   (Order_findById e (order_id req) (orders s) = Returned ord \<and> o_user ord \<noteq> vr_user req \<and>
    \<not> isPaid ord \<and> razorpay_signature req = expectedSignature e req \<and>
    payments_fetch e (razorpay_payment_id req) = Returned m \<longrightarrow>
      fst (verify e req s) =
        Response 200 (PaymentVerified ''Payment verified successfully''
           (o_id ord) (razorpay_payment_id req))) \<and>
   (Order_findById e i (orders s) = Returned ord \<and> o_user ord \<noteq> b \<longrightarrow>
      cancel e b i s = (Response 401 (Message ''Not authorized''), s) \<and>
      repay e b i s = (Response 401 (Message ''Not authorized''), s))"
proof (intro conjI impI)
  show "verify e (req\<lparr>vr_user := a\<rparr>) s = verify e (req\<lparr>vr_user := b\<rparr>) s"
    by (simp add: verify_def expectedSignature_def Let_def
        split: awaited.splits)
next
  assume a: "Order_findById e (order_id req) (orders s) = Returned ord \<and> o_user ord \<noteq> vr_user req \<and>
    \<not> isPaid ord \<and> razorpay_signature req = expectedSignature e req \<and>
    payments_fetch e (razorpay_payment_id req) = Returned m"
  with verify_first [of e req s ord m] show "fst (verify e req s) =
        Response 200 (PaymentVerified ''Payment verified successfully''
           (o_id ord) (razorpay_payment_id req))"
    by simp
next
  assume "Order_findById e i (orders s) = Returned ord \<and> o_user ord \<noteq> b"
  then show "cancel e b i s = (Response 401 (Message ''Not authorized''), s)"
    by (simp add: cancel_def)
next
  assume "Order_findById e i (orders s) = Returned ord \<and> o_user ord \<noteq> b"
  then show "repay e b i s = (Response 401 (Message ''Not authorized''), s)"
    by (simp add: repay_def)
qed

theorem verify_ignores_caller_witness:
  "Order_findById shop_env (order_id (pay ''bob'' o1 ''secret:gw_1|pay_1''))
     (orders (shop\<lparr>orders := [pending o1]\<rparr>)) = Returned (pending o1) \<and>
   o_user (pending o1) \<noteq> vr_user (pay ''bob'' o1 ''secret:gw_1|pay_1'') \<and>
   \<not> isPaid (pending o1) \<and>
   razorpay_signature (pay ''bob'' o1 ''secret:gw_1|pay_1'') =
     expectedSignature shop_env (pay ''bob'' o1 ''secret:gw_1|pay_1'') \<and>
   payments_fetch shop_env (razorpay_payment_id (pay ''bob'' o1 ''secret:gw_1|pay_1'')) =
     Returned (Some ''upi'') \<and>
   verify shop_env ((pay ''bob'' o1 ''secret:gw_1|pay_1'')\<lparr>vr_user := ''alice''\<rparr>)
     (shop\<lparr>orders := [pending o1]\<rparr>) =
   verify shop_env ((pay ''bob'' o1 ''secret:gw_1|pay_1'')\<lparr>vr_user := ''bob''\<rparr>)
     (shop\<lparr>orders := [pending o1]\<rparr>) \<and>
   fst (verify shop_env (pay ''bob'' o1 ''secret:gw_1|pay_1'') (shop\<lparr>orders := [pending o1]\<rparr>)) =
     Response 200 (PaymentVerified ''Payment verified successfully'' o1 ''pay_1'') \<and>
   cancel shop_env ''bob'' o1 (shop\<lparr>orders := [pending o1]\<rparr>) =
     (Response 401 (Message ''Not authorized''), shop\<lparr>orders := [pending o1]\<rparr>) \<and>
   repay shop_env ''bob'' o1 (shop\<lparr>orders := [pending o1]\<rparr>) =
     (Response 401 (Message ''Not authorized''), shop\<lparr>orders := [pending o1]\<rparr>)"
proof -
  let ?s = "shop\<lparr>orders := [pending o1]\<rparr>"
  let ?req = "pay ''bob'' o1 ''secret:gw_1|pay_1''"
  have f: "Order_findById shop_env (order_id ?req) (orders ?s) = Returned (pending o1)"
    "Order_findById shop_env o1 (orders ?s) = Returned (pending o1)"
    by (simp_all add: shop_defs Order_findById_def Order_byId_def)
  have h: "o_user (pending o1) \<noteq> vr_user ?req \<and> \<not> isPaid (pending o1) \<and>
       razorpay_signature ?req = expectedSignature shop_env ?req \<and>
       payments_fetch shop_env (razorpay_payment_id ?req) = Returned (Some ''upi'')"
    "o_user (pending o1) \<noteq> ''bob''" "o_id (pending o1) = o1"
    "razorpay_payment_id ?req = ''pay_1''"
    by (simp_all add: shop_defs expectedSignature_def)
  from verify_ignores_caller
    [where e = shop_env and req = ?req and a = "''alice''" and s = ?s and b = "''bob''"
       and ord = "pending o1" and m = "Some ''upi''" and i = o1] f h
  show ?thesis
    by simp
qed

section \<open>The batched stock update, seen by a reader\<close>

lemma find_variant_update:
  "find (variant_matches sz col)
     (update_first (variant_matches sz' col') (\<lambda>v. v\<lparr>v_stock := v_stock v + d\<rparr>) vs) =
   map_option (\<lambda>v. if sz = sz' \<and> col = col' then v\<lparr>v_stock := v_stock v + d\<rparr> else v)
     (find (variant_matches sz col) vs)"
  by (induction vs) (auto simp: variant_matches_def option.map_ident)

lemma updateOne_stock:
  "variant_stock (fst (updateOne u ps)) i sz col =
     map_option (\<lambda>st. st + (if op_targets i sz col u then uo_inc u else 0))
       (variant_stock ps i sz col)"
proof (induction ps)
  case Nil
  show ?case by (simp add: updateOne_def variant_stock_def Product_byId_def)
next
  case (Cons p ps)
  show ?case
  proof (cases "op_filter u p")
    case True
    then show ?thesis
      by (cases "p_id p = i")
        (auto simp: updateOne_def variant_stock_def Product_byId_def find_variant_def
          op_filter_def op_update_def op_targets_def find_variant_update option.map_comp o_def
          option.map_ident intro!: option.map_cong)
  next
    case False
    show ?thesis
    proof (cases "p_id p = i")
      case True
      with False have "op_targets i sz col u \<Longrightarrow> find (variant_matches sz col) (p_variants p) = None"
        by (auto simp: op_filter_def op_targets_def list_ex_find)
      with True False show ?thesis
        by (auto simp: updateOne_def variant_stock_def Product_byId_def find_variant_def
            option.map_ident intro!: option.map_ident_strong)
    next
      case neq: False
      with False Cons.IH show ?thesis
        by (simp add: updateOne_def variant_stock_def Product_byId_def)
    qed
  qed
qed

lemma bulkWrite_stock:
  "variant_stock (fst (bulkWrite us ps)) i sz col =
     map_option (\<lambda>st. st + op_total us i sz col) (variant_stock ps i sz col)"
proof (induction us arbitrary: ps)
  case Nil
  show ?case by (simp add: op_total_def option.map_ident)
next
  case (Cons u us)
  have "variant_stock (fst (bulkWrite (u # us) ps)) i sz col =
        variant_stock (fst (bulkWrite us (fst (updateOne u ps)))) i sz col"
    by (simp split: prod.splits)
  also have "\<dots> = map_option (\<lambda>st. st + op_total us i sz col)
                     (variant_stock (fst (updateOne u ps)) i sz col)"
    by (rule Cons.IH)
  also have "\<dots> = map_option (\<lambda>st. st + op_total (u # us) i sz col) (variant_stock ps i sz col)"
    by (simp add: updateOne_stock option.map_comp o_def op_total_def add.assoc)
  finally show ?case .
qed

lemma op_total_decrement: "op_total (decrement_ops ord) i sz col = - ordered_quantity ord i sz col"
proof -
  have "sum_list (map uo_inc (filter (op_targets i sz col)
          (map (\<lambda>item. \<lparr>uo_product = oi_product item, uo_size = oi_size item,
                   uo_colorName = oi_colorName item, uo_inc = - oi_quantity item\<rparr>) items))) =
        - sum_list (map oi_quantity
            (filter (\<lambda>item. oi_product item = i \<and> oi_size item = sz \<and> oi_colorName item = col)
               items))" for items
    by (induction items) (auto simp: op_targets_def)
  then show ?thesis
    by (simp add: op_total_def decrement_ops_def ordered_quantity_def)
qed

lemma op_total_restock: "op_total (restock_ops ord) i sz col = ordered_quantity ord i sz col"
proof -
  have "sum_list (map uo_inc (filter (op_targets i sz col)
          (map (\<lambda>item. \<lparr>uo_product = oi_product item, uo_size = oi_size item,
                   uo_colorName = oi_colorName item, uo_inc = oi_quantity item\<rparr>) items))) =
        sum_list (map oi_quantity
            (filter (\<lambda>item. oi_product item = i \<and> oi_size item = sz \<and> oi_colorName item = col)
               items))" for items
    by (induction items) (auto simp: op_targets_def)
  then show ?thesis
    by (simp add: op_total_def restock_ops_def ordered_quantity_def)
qed

section \<open>Cancel and Delete\<close>

lemma find_delete_first_distinct:
  "distinct (map f xs) \<Longrightarrow> find (\<lambda>x. f x = i) (delete_first (\<lambda>x. f x = i) xs) = None"
proof (induction xs)
  case Nil
  show ?case by simp
next
  case (Cons a xs)
  show ?case
  proof (cases "f a = i")
    case True
    from Cons.prems have "f a \<notin> f ` set xs"
      by simp
    with True have "\<forall>x\<in>set xs. f x \<noteq> i"
      by blast
    then have "find (\<lambda>x. f x = i) xs = None"
      by (simp add: find_None_iff)
    with True show ?thesis by simp
  next
    case False
    with Cons show ?thesis by simp
  qed
qed

lemma Order_findById_deleteOne:
  assumes "distinct (map o_id os)" "castObjectId e i = Some c"
  shows "Order_findById e i (Order_deleteOne c os) = Null"
  using find_delete_first_distinct [OF assms(1), of c] assms(2)
  by (simp add: Order_findById_def Order_byId_def Order_deleteOne_def)

lemma cancel_rejected:
  assumes "Order_findById e i (orders s) = Returned ord" "isPaid ord"
  shows "cancel e user i s =
      (if o_user ord \<noteq> user then (Response 401 (Message ''Not authorized''), s)
       else (Response 400 (Message ''Cannot cancel a paid order''), s))"
  using assms by (simp add: cancel_def)

lemma cancel_accepted:
  assumes "Order_findById e i (orders s) = Returned ord" "\<not> isPaid ord" "o_user ord = user"
  shows "cancel e user i s =
      (Response 200 (OrderDoc (ord\<lparr>isCancelled := True\<rparr>)),
       s\<lparr>orders := Order_save (ord\<lparr>isCancelled := True\<rparr>) (orders s)\<rparr>)"
  using assms by (simp add: cancel_def Let_def)

lemma delete_order_found:
  assumes "Order_findById e i (orders s) = Returned ord"
  shows "delete_order e i s =
      (Response 200 (Message ''Order permanently deleted''),
       s\<lparr>products := (if isPaid ord \<and> \<not> isCancelled ord
                        then fst (bulkWrite (restock_ops ord) (products s)) else products s),
         orders := Order_deleteOne (o_id ord) (orders s)\<rparr>)"
  using assms by (simp add: delete_order_def Let_def)

text \<open>
  C5. Cancel succeeds only on an unpaid order: on a paid order it is rejected (401 for a
  caller who is not the owner, 400 otherwise) and nothing changes; on an unpaid order of
  the caller it stores \<open>isCancelled = true\<close> and leaves every stock as it was.
  Delete of a paid order that is not cancelled adds, for every variant, the order's
  quantity of that variant to its stock, and removes the order; Delete of an unpaid or a
  cancelled order removes the order and leaves the products unchanged.
\<close>

theorem cancel_and_delete:
  assumes found: "Order_findById e i (orders s) = Returned ord"
  shows
    "(isPaid ord \<longrightarrow>
        snd (cancel e user i s) = s \<and>
        fst (cancel e user i s) \<in>
          {Response 401 (Message ''Not authorized''),
           Response 400 (Message ''Cannot cancel a paid order'')}) \<and>
     (\<not> isPaid ord \<and> o_user ord = user \<longrightarrow>
        fst (cancel e user i s) = Response 200 (OrderDoc (ord\<lparr>isCancelled := True\<rparr>)) \<and>
        products (snd (cancel e user i s)) = products s \<and>
        Order_findById e i (orders (snd (cancel e user i s))) =
          Returned (ord\<lparr>isCancelled := True\<rparr>)) \<and>
     fst (delete_order e i s) = Response 200 (Message ''Order permanently deleted'') \<and>
     orders (snd (delete_order e i s)) = Order_deleteOne (o_id ord) (orders s) \<and>
     (distinct (map o_id (orders s)) \<longrightarrow>
        Order_findById e i (orders (snd (delete_order e i s))) = Null) \<and>
     (isPaid ord \<and> \<not> isCancelled ord \<longrightarrow>
        (\<forall>p sz col.
           variant_stock (products (snd (delete_order e i s))) p sz col =
           map_option (\<lambda>st. st + ordered_quantity ord p sz col)
             (variant_stock (products s) p sz col))) \<and>
     (\<not> isPaid ord \<or> isCancelled ord \<longrightarrow>
        products (snd (delete_order e i s)) = products s)"
proof -
  have c: "castObjectId e i = Some (o_id ord)"
    using found by (rule Order_findById_cast)
  then have "castObjectId e i = Some (o_id (ord\<lparr>isCancelled := True\<rparr>))"
    by simp
  then have saved: "Order_findById e i (Order_save (ord\<lparr>isCancelled := True\<rparr>) (orders s)) =
      Returned (ord\<lparr>isCancelled := True\<rparr>)"
    by (rule Order_findById_save)
  have gone: "Order_findById e i (Order_deleteOne (o_id ord) (orders s)) = Null"
    if "distinct (map o_id (orders s))"
    using that c by (rule Order_findById_deleteOne)
  show ?thesis
    using cancel_rejected [OF found, of user] cancel_accepted [OF found, of user]
      delete_order_found [OF found] saved gone
    by (auto simp: bulkWrite_stock op_total_restock)
qed

text \<open>
  A paid order of two shirts with one left in stock: Cancel is refused, Delete brings the
  stock back to 3 and the order is gone. The same order while unpaid: Cancel succeeds and
  neither Cancel nor Delete touches the stock.
\<close>

theorem cancel_and_delete_witness:
  "Order_findById shop_env o1 (orders (shop\<lparr>products := [shirt 1], orders := [paid o1]\<rparr>)) =
     Returned (paid o1) \<and>
   isPaid (paid o1) \<and> \<not> isCancelled (paid o1) \<and>
   distinct (map o_id (orders (shop\<lparr>products := [shirt 1], orders := [paid o1]\<rparr>))) \<and>
   cancel shop_env ''alice'' o1 (shop\<lparr>products := [shirt 1], orders := [paid o1]\<rparr>) =
     (Response 400 (Message ''Cannot cancel a paid order''),
      shop\<lparr>products := [shirt 1], orders := [paid o1]\<rparr>) \<and>
   variant_stock
     (products (snd (delete_order shop_env o1 (shop\<lparr>products := [shirt 1], orders := [paid o1]\<rparr>))))
     p1 ''M'' ''Black'' = Some 3 \<and>
   Order_findById shop_env o1
     (orders (snd (delete_order shop_env o1 (shop\<lparr>products := [shirt 1], orders := [paid o1]\<rparr>)))) =
     Null \<and>
   Order_findById shop_env o1 (orders (shop\<lparr>orders := [pending o1]\<rparr>)) = Returned (pending o1) \<and>
   \<not> isPaid (pending o1) \<and> o_user (pending o1) = ''alice'' \<and>
   fst (cancel shop_env ''alice'' o1 (shop\<lparr>orders := [pending o1]\<rparr>)) =
     Response 200 (OrderDoc ((pending o1)\<lparr>isCancelled := True\<rparr>)) \<and>
   products (snd (cancel shop_env ''alice'' o1 (shop\<lparr>orders := [pending o1]\<rparr>))) = [shirt 3] \<and>
   products (snd (delete_order shop_env o1 (shop\<lparr>orders := [pending o1]\<rparr>))) = [shirt 3]"
proof -
  let ?s = "shop\<lparr>products := [shirt 1], orders := [paid o1]\<rparr>"
  let ?t = "shop\<lparr>orders := [pending o1]\<rparr>"
  have f: "Order_findById shop_env o1 (orders ?s) = Returned (paid o1)"
    by (simp add: shop_defs Order_findById_def Order_byId_def)
  have g: "Order_findById shop_env o1 (orders ?t) = Returned (pending o1)"
    by (simp add: shop_defs Order_findById_def Order_byId_def)
  have h: "isPaid (paid o1)" "\<not> isCancelled (paid o1)"
    "distinct (map o_id (orders ?s))" "o_user (paid o1) = ''alice''"
    "\<not> isPaid (pending o1)" "o_user (pending o1) = ''alice''"
    by (simp_all add: shop_defs)
  have v: "variant_stock (products ?s) p1 ''M'' ''Black'' = Some 1"
    "ordered_quantity (paid o1) p1 ''M'' ''Black'' = 2"
    "products ?t = [shirt 3]"
    by (simp_all add: shop_defs variant_stock_def ordered_quantity_def Product_byId_def
        find_variant_def variant_matches_def)
  have c: "cancel shop_env ''alice'' o1 ?s = (Response 400 (Message ''Cannot cancel a paid order''), ?s)"
    using f h by (simp add: cancel_def)
  note paid_case = cancel_and_delete [OF f, of "''alice''"]
  note pending_case = cancel_and_delete [OF g, of "''alice''"]
  from paid_case h have
    "variant_stock (products (snd (delete_order shop_env o1 ?s))) p1 ''M'' ''Black'' =
       map_option (\<lambda>st. st + ordered_quantity (paid o1) p1 ''M'' ''Black'')
         (variant_stock (products ?s) p1 ''M'' ''Black'')"
    and "Order_findById shop_env o1 (orders (snd (delete_order shop_env o1 ?s))) = Null"
    by blast+
  moreover from pending_case h have
    "fst (cancel shop_env ''alice'' o1 ?t) =
       Response 200 (OrderDoc ((pending o1)\<lparr>isCancelled := True\<rparr>))"
    and "products (snd (cancel shop_env ''alice'' o1 ?t)) = products ?t"
    and "products (snd (delete_order shop_env o1 ?t)) = products ?t"
    by blast+
  ultimately show ?thesis
    using f g h v c by simp
qed

section \<open>Decrements that match no variant\<close>

lemma verify_response_ledger_free:
  "fst (verify e req (s\<lparr>products := ps\<rparr>)) = fst (verify e req s) \<and>
   orders (snd (verify e req (s\<lparr>products := ps\<rparr>))) = orders (snd (verify e req s)) \<and>
   carts (snd (verify e req (s\<lparr>products := ps\<rparr>))) = carts (snd (verify e req s))"
  by (simp add: verify_def Let_def split: awaited.splits)

text \<open>
  C6, as claimed: a decrement of Verify that matches no variant (the variant was deleted
  or renamed) is surfaced to the caller or to an audit. It is not. The order below holds
  (M, Black) and (L, Black); in the ledger where (M, Black) has been renamed to (M, Noir)
  the batch reports one match for two operations, and Verify discards that report: its
  response and the order it stores are those of the ledger where both variants exist.
\<close>

theorem verify_swallows_unmatched_decrement:
  "length (decrement_ops mixed) = 2 \<and>
   snd (bulkWrite (decrement_ops mixed) (products (wardrobe ''Noir''))) = 1 \<and>
   fst (verify shop_env (pay ''alice'' o3 ''secret:gw_1|pay_1'') (wardrobe ''Noir'')) =
     Response 200 (PaymentVerified ''Payment verified successfully'' o3 ''pay_1'') \<and>
   fst (verify shop_env (pay ''alice'' o3 ''secret:gw_1|pay_1'') (wardrobe ''Noir'')) =
     fst (verify shop_env (pay ''alice'' o3 ''secret:gw_1|pay_1'') (wardrobe ''Black'')) \<and>
   orders (snd (verify shop_env (pay ''alice'' o3 ''secret:gw_1|pay_1'') (wardrobe ''Noir''))) =
     orders (snd (verify shop_env (pay ''alice'' o3 ''secret:gw_1|pay_1'') (wardrobe ''Black'')))"
  by (simp add: shop_defs order_route_defs)

text \<open>
  C6, amended: a decrement of Verify whose (product, size, colorName) matches no variant
  changes nothing and is reported nowhere. Verify answers with the same success, and
  stores the same order, whatever the ledger holds; the other decrements of the batch are
  applied: every variant that exists loses the order's quantity of it, and a variant that
  does not exist still does not exist.
\<close>

theorem verify_discards_match_count:
  assumes "Order_findById e (order_id req) (orders s) = Returned ord" and "\<not> isPaid ord"
    and "razorpay_signature req = expectedSignature e req"
    and "payments_fetch e (razorpay_payment_id req) = Returned m"
  shows "fst (verify e req s) =
           Response 200 (PaymentVerified ''Payment verified successfully''
              (o_id ord) (razorpay_payment_id req)) \<and>
         fst (verify e req (s\<lparr>products := ps\<rparr>)) = fst (verify e req s) \<and>
         orders (snd (verify e req (s\<lparr>products := ps\<rparr>))) = orders (snd (verify e req s)) \<and>
         variant_stock (products (snd (verify e req s))) p sz col =
           map_option (\<lambda>st. st - ordered_quantity ord p sz col)
             (variant_stock (products s) p sz col)"
  using verify_first [OF assms]
    verify_response_ledger_free [where e = e and req = req and s = s and ps = ps]
  by (simp add: bulkWrite_stock op_total_decrement)

theorem verify_discards_match_count_witness:
  "Order_findById shop_env (order_id (pay ''alice'' o3 ''secret:gw_1|pay_1''))
     (orders (wardrobe ''Noir'')) = Returned mixed \<and>
   \<not> isPaid mixed \<and>
   razorpay_signature (pay ''alice'' o3 ''secret:gw_1|pay_1'') =
     expectedSignature shop_env (pay ''alice'' o3 ''secret:gw_1|pay_1'') \<and>
   payments_fetch shop_env (razorpay_payment_id (pay ''alice'' o3 ''secret:gw_1|pay_1'')) =
     Returned (Some ''upi'') \<and>
   fst (verify shop_env (pay ''alice'' o3 ''secret:gw_1|pay_1'') (wardrobe ''Noir'')) =
     Response 200 (PaymentVerified ''Payment verified successfully'' o3 ''pay_1'') \<and>
   variant_stock
     (products (snd (verify shop_env (pay ''alice'' o3 ''secret:gw_1|pay_1'') (wardrobe ''Noir''))))
     p1 ''M'' ''Black'' = None \<and>
   variant_stock
     (products (snd (verify shop_env (pay ''alice'' o3 ''secret:gw_1|pay_1'') (wardrobe ''Noir''))))
     p1 ''L'' ''Black'' = Some 4"
proof -
  let ?req = "pay ''alice'' o3 ''secret:gw_1|pay_1''"
  have f: "Order_findById shop_env (order_id ?req) (orders (wardrobe ''Noir'')) = Returned mixed"
    by (simp add: shop_defs Order_findById_def Order_byId_def)
  have u: "\<not> isPaid mixed"
    by (simp add: shop_defs)
  have g: "razorpay_signature ?req = expectedSignature shop_env ?req"
    by (simp add: shop_defs expectedSignature_def)
  have r: "payments_fetch shop_env (razorpay_payment_id ?req) = Returned (Some ''upi'')"
    by (simp add: shop_defs)
  have v: "variant_stock (products (wardrobe ''Noir'')) p1 ''M'' ''Black'' = None"
    "variant_stock (products (wardrobe ''Noir'')) p1 ''L'' ''Black'' = Some 5"
    "ordered_quantity mixed p1 ''L'' ''Black'' = 1"
    "o_id mixed = o3" "razorpay_payment_id ?req = ''pay_1''"
    by (simp_all add: shop_defs variant_stock_def ordered_quantity_def
        Product_byId_def find_variant_def variant_matches_def)
  from verify_discards_match_count [OF f u g r, where p = p1 and sz = "''M''" and col = "''Black''"]
    verify_discards_match_count [OF f u g r, where p = p1 and sz = "''L''" and col = "''Black''"]
  show ?thesis
    using f u g r v by simp
qed

section \<open>The validators\<close>

subsection \<open>The stock map of validate-cart\<close>

lemma those_Some_iff: "those (map f xs) \<noteq> None \<longleftrightarrow> list_all (\<lambda>x. f x \<noteq> None) xs"
  by (induction xs) (auto split: option.splits)


lemma Product_find_in_throws:
  assumes "\<not> list_all (\<lambda>x. castObjectId e (pk_id x) \<noteq> None) items"
  shows "Product_find_in e (remdups (map pk_id items)) ps = None"
proof -
  from assms have "\<not> list_all (\<lambda>i. castObjectId e i \<noteq> None) (remdups (map pk_id items))"
    by (auto simp: list_all_iff)
  then have "those (map (castObjectId e) (remdups (map pk_id items))) = None"
    using those_Some_iff [of "castObjectId e" "remdups (map pk_id items)"] by blast
  then show ?thesis
    by (simp add: Product_find_in_def)
qed

lemma set_variants_nonneg:
  assumes "\<And>v. v \<in> set vs \<Longrightarrow> 0 \<le> v_stock v" "\<And>k st. m k = Some st \<Longrightarrow> 0 \<le> st"
    "fold (\<lambda>v m'. m'(variant_key i (v_size v) (v_colorName v) \<mapsto> v_stock v)) vs m k = Some st"
  shows "0 \<le> st"
  using assms
proof (induction vs arbitrary: m)
  case Nil
  then show ?case by simp
next
  case (Cons v vs)
  let ?m = "m(variant_key i (v_size v) (v_colorName v) \<mapsto> v_stock v)"
  have m: "0 \<le> st'" if "?m k' = Some st'" for k' st'
    using that Cons.prems(1) [of v] Cons.prems(2) [of k' st'] by (simp split: if_splits)
  have vs: "0 \<le> v_stock v'" if "v' \<in> set vs" for v'
    using that Cons.prems(1) [of v'] by simp
  have f: "fold (\<lambda>v m'. m'(variant_key i (v_size v) (v_colorName v) \<mapsto> v_stock v)) vs ?m k = Some st"
    using Cons.prems(3) by (simp only: fold_simps o_apply)
  show ?case
    by (rule Cons.IH [of ?m, OF vs m f])
qed

lemma fold_set_variants_nonneg:
  assumes "\<And>p v. p \<in> set ps \<Longrightarrow> v \<in> set (p_variants p) \<Longrightarrow> 0 \<le> v_stock v"
    "\<And>k st. m k = Some st \<Longrightarrow> 0 \<le> st"
    "fold set_variants ps m k = Some st"
  shows "0 \<le> st"
  using assms
proof (induction ps arbitrary: m)
  case Nil
  then show ?case by simp
next
  case (Cons p ps)
  have m: "0 \<le> st'" if "set_variants p m k' = Some st'" for k' st'
  proof (rule set_variants_nonneg [of "p_variants p" m "p_id p" k' st'])
    show "0 \<le> v_stock v" if "v \<in> set (p_variants p)" for v
      using that Cons.prems(1) [of p v] by simp
    show "0 \<le> st''" if "m k'' = Some st''" for k'' st''
      using that by (rule Cons.prems(2))
    show "fold (\<lambda>v m'. m'(variant_key (p_id p) (v_size v) (v_colorName v) \<mapsto> v_stock v))
            (p_variants p) m k' = Some st'"
      using that by (simp add: set_variants_def)
  qed
  have vs: "0 \<le> v_stock v" if "q \<in> set ps" "v \<in> set (p_variants q)" for q v
    using that Cons.prems(1) [of q v] by simp
  have f: "fold set_variants ps (set_variants p m) k = Some st"
    using Cons.prems(3) by simp
  show ?case
    by (rule Cons.IH [of "set_variants p m", OF vs m f])
qed

lemma build_stockMap_nonneg:
  assumes "stock_nonneg ps" "set qs \<subseteq> set ps"
  shows "0 \<le> looked_up (build_stockMap qs) x"
proof (cases "build_stockMap qs (variant_key (pk_id x) (pk_size x) (pk_colorName x))")
  case None
  then show ?thesis by (simp add: looked_up_def)
next
  case (Some st)
  have "0 \<le> st"
  proof (rule fold_set_variants_nonneg [of qs Map.empty _ st])
    show "0 \<le> v_stock v" if "p \<in> set qs" "v \<in> set (p_variants p)" for p v
      using that assms by (auto simp: stock_nonneg_def list_all_iff)
    show "0 \<le> st'" if "Map.empty k = Some st'" for k st' :: "int"
      using that by simp
    show "fold set_variants qs Map.empty
            (variant_key (pk_id x) (pk_size x) (pk_colorName x)) = Some st"
      using Some by (simp add: build_stockMap_def)
  qed
  with Some show ?thesis by (simp add: looked_up_def)
qed

subsection \<open>The stock map against the ledger\<close>

lemma split_at_dash:
  assumes "dash_free a" "dash_free a'" "a @ ''-'' @ b = a' @ ''-'' @ b'"
  shows "a = a' \<and> b = b'"
  using assms
proof (induction a arbitrary: a')
  case Nil
  then show ?case by (cases a') (auto simp: dash_free_def)
next
  case (Cons x a)
  show ?case
  proof (cases a')
    case Nil
    with Cons.prems show ?thesis by (auto simp: dash_free_def)
  next
    case (Cons y a'')
    with Cons.prems Cons.IH [of a''] show ?thesis by (auto simp: dash_free_def)
  qed
qed

lemma variant_key_inj:
  assumes "dash_free i" "dash_free i'" "dash_free sz" "dash_free sz'"
    "variant_key i sz col = variant_key i' sz' col'"
  shows "i = i' \<and> sz = sz' \<and> col = col'"
proof -
  from assms(5) have "i @ ''-'' @ (sz @ ''-'' @ col) = i' @ ''-'' @ (sz' @ ''-'' @ col')"
    by (simp add: variant_key_def)
  with assms(1,2) have 1: "i = i'" and "sz @ ''-'' @ col = sz' @ ''-'' @ col'"
    using split_at_dash by blast+
  with assms(3,4) have "sz = sz' \<and> col = col'"
    using split_at_dash by blast
  with 1 show ?thesis by simp
qed

lemma find_append_cases:
  "find P (xs @ ys) = (case find P xs of None \<Rightarrow> find P ys | Some x \<Rightarrow> Some x)"
  by (induction xs) simp_all

lemma fold_upd_lookup:
  "fold (\<lambda>v m'. m'(f v \<mapsto> g v)) vs m k =
     (case find (\<lambda>v. f v = k) (rev vs) of None \<Rightarrow> m k | Some v \<Rightarrow> Some (g v))"
proof (induction vs arbitrary: m)
  case Nil
  show ?case by simp
next
  case (Cons v vs)
  show ?case
    using Cons.IH [of "m(f v \<mapsto> g v)"]
    by (simp add: find_append_cases split: option.splits)
qed

lemma find_rev_unique:
  assumes "\<And>x y. x \<in> set xs \<Longrightarrow> y \<in> set xs \<Longrightarrow> P x \<Longrightarrow> P y \<Longrightarrow> x = y"
  shows "find P (rev xs) = find P xs"
proof (cases "find P xs")
  case None
  then have "\<not> (\<exists>x. x \<in> set xs \<and> P x)"
    by (simp add: find_None_iff)
  then have "find P (rev xs) = None"
    by (simp add: find_None_iff)
  with None show ?thesis by simp
next
  case (Some x)
  then have x: "x \<in> set xs" "P x"
    by (auto dest: find_Some_mem find_Some_holds)
  then have "find P (rev xs) \<noteq> None"
    by (auto simp: find_None_iff)
  then obtain y where y: "find P (rev xs) = Some y"
    by auto
  then have "y \<in> set xs" "P y"
    by (auto dest: find_Some_mem find_Some_holds)
  with x assms have "y = x"
    by blast
  with y Some show ?thesis by simp
qed

lemma set_variants_lookup:
  assumes d: "dash_free (p_id p)" "dash_free i" "dash_free sz"
    "list_all (\<lambda>v. dash_free (v_size v)) (p_variants p)"
    and u: "distinct (map (\<lambda>v. (v_size v, v_colorName v)) (p_variants p))"
  shows "set_variants p m (variant_key i sz col) =
     (if p_id p = i
      then (case find_variant p sz col of
              None \<Rightarrow> m (variant_key i sz col)
            | Some v \<Rightarrow> Some (v_stock v))
      else m (variant_key i sz col))"
proof -
  let ?k = "variant_key i sz col"
  let ?f = "\<lambda>v. variant_key (p_id p) (v_size v) (v_colorName v)"
  let ?P = "\<lambda>v. p_id p = i \<and> variant_matches sz col v"
  have key: "(?f v = ?k) = ?P v" if "v \<in> set (p_variants p)" for v
  proof -
    from that d(4) have "dash_free (v_size v)"
      by (simp add: list_all_iff)
    with d(1,2,3) show ?thesis
      using variant_key_inj [of "p_id p" i "v_size v" sz "v_colorName v" col]
      by (auto simp: variant_matches_def)
  qed
  have uniq: "x = y"
    if "x \<in> set (p_variants p)" "y \<in> set (p_variants p)" "?P x" "?P y" for x y
  proof -
    from that(3,4) have "(v_size x, v_colorName x) = (v_size y, v_colorName y)"
      by (simp add: variant_matches_def)
    with u that(1,2) show ?thesis
      by (meson distinct_map inj_onD)
  qed
  have "find (\<lambda>v. ?f v = ?k) (rev (p_variants p)) = find ?P (rev (p_variants p))"
    by (rule find_cong) (simp_all add: key)
  also have "\<dots> = find ?P (p_variants p)"
    using uniq by (rule find_rev_unique)
  finally have f: "find (\<lambda>v. ?f v = ?k) (rev (p_variants p)) = find ?P (p_variants p)" .
  have "set_variants p m ?k =
        (case find ?P (p_variants p) of None \<Rightarrow> m ?k | Some v \<Rightarrow> Some (v_stock v))"
    unfolding set_variants_def fold_upd_lookup f ..
  moreover have "find ?P (p_variants p) = None" if "p_id p \<noteq> i"
    using that by (simp add: find_None_iff)
  moreover have "find ?P (p_variants p) = find_variant p sz col" if "p_id p = i"
    using that by (simp add: find_variant_def)
  ultimately show ?thesis
    by simp
qed

lemma Product_byId_Cons:
  "Product_byId i (p # ps) = (if p_id p = i then Some p else Product_byId i ps)"
  by (simp add: Product_byId_def)

lemma Product_byId_None: "i \<notin> p_id ` set ps \<Longrightarrow> Product_byId i ps = None"
  by (auto simp: Product_byId_def find_None_iff)

lemma fold_set_variants_lookup:
  assumes "ledger_dash_free qs" "ledger_keyed qs" "dash_free i" "dash_free sz"
  shows "fold set_variants qs m (variant_key i sz col) =
     (case variant_stock qs i sz col of None \<Rightarrow> m (variant_key i sz col) | Some st \<Rightarrow> Some st)"
  using assms(1,2)
proof (induction qs arbitrary: m)
  case Nil
  show ?case by (simp add: variant_stock_def Product_byId_def)
next
  case (Cons p qs)
  let ?k = "variant_key i sz col"
  from Cons.prems have p: "dash_free (p_id p)"
    "list_all (\<lambda>v. dash_free (v_size v)) (p_variants p)"
    "distinct (map (\<lambda>v. (v_size v, v_colorName v)) (p_variants p))"
    and rest: "ledger_dash_free qs" "ledger_keyed qs"
    and fresh: "p_id p \<notin> p_id ` set qs"
    by (simp_all add: ledger_dash_free_def ledger_keyed_def)
  note step = set_variants_lookup [OF p(1) assms(3,4) p(2,3), of m col]
  note ih = Cons.IH [OF rest, of "set_variants p m"]
  show ?case
  proof (cases "p_id p = i")
    case True
    with fresh have "Product_byId i qs = None"
      by (intro Product_byId_None) simp
    then have "variant_stock qs i sz col = None"
      by (simp add: variant_stock_def)
    with ih step True show ?thesis
      by (simp add: variant_stock_def Product_byId_Cons split: option.splits)
  next
    case False
    with ih step show ?thesis
      by (simp add: variant_stock_def Product_byId_Cons split: option.splits)
  qed
qed

lemma those_canonical: "list_all (\<lambda>i. f i = Some i) xs \<Longrightarrow> those (map f xs) = Some xs"
  by (induction xs) simp_all

lemma Product_find_in_canonical:
  assumes "list_all (\<lambda>x. canonical e (pk_id x)) items"
  shows "Product_find_in e (remdups (map pk_id items)) ps =
         Some (filter (\<lambda>p. p_id p \<in> pk_id ` set items) ps)"
proof -
  from assms have "list_all (\<lambda>i. castObjectId e i = Some i) (remdups (map pk_id items))"
    by (auto simp: list_all_iff canonical_def)
  then have "those (map (castObjectId e) (remdups (map pk_id items))) =
             Some (remdups (map pk_id items))"
    by (rule those_canonical)
  then show ?thesis
    by (simp add: Product_find_in_def)
qed

lemma find_filter: "find P (filter Q xs) = find (\<lambda>x. Q x \<and> P x) xs"
  by (induction xs) simp_all

lemma variant_stock_filter:
  assumes "i \<in> A"
  shows "variant_stock (filter (\<lambda>p. p_id p \<in> A) ps) i sz col = variant_stock ps i sz col"
proof -
  have "find (\<lambda>p. p_id p \<in> A \<and> p_id p = i) ps = find (\<lambda>p. p_id p = i) ps"
    using assms by (intro find_cong) auto
  then show ?thesis
    by (simp add: variant_stock_def Product_byId_def find_filter)
qed

lemma ledger_filter:
  assumes "ledger_dash_free ps" "ledger_keyed ps"
  shows "ledger_dash_free (filter Q ps) \<and> ledger_keyed (filter Q ps)"
  using assms
  by (auto simp: ledger_dash_free_def ledger_keyed_def list_all_iff distinct_map_filter)

lemma looked_up_ledger:
  assumes "ledger_dash_free ps" "ledger_keyed ps"
    "canonical e (pk_id x)" "dash_free (pk_id x)" "dash_free (pk_size x)" "x \<in> set items"
  shows "looked_up (build_stockMap (filter (\<lambda>p. p_id p \<in> pk_id ` set items) ps)) x =
         ledger_stock e ps (pk_id x) (pk_size x) (pk_colorName x)"
proof -
  let ?qs = "filter (\<lambda>p. p_id p \<in> pk_id ` set items) ps"
  from ledger_filter [OF assms(1,2)] have l: "ledger_dash_free ?qs" "ledger_keyed ?qs"
    by simp_all
  have "build_stockMap ?qs (variant_key (pk_id x) (pk_size x) (pk_colorName x)) =
        variant_stock ?qs (pk_id x) (pk_size x) (pk_colorName x)"
    unfolding build_stockMap_def fold_set_variants_lookup [OF l assms(4,5)]
    by (simp split: option.splits)
  also have "\<dots> = variant_stock ps (pk_id x) (pk_size x) (pk_colorName x)"
    using assms(6) by (intro variant_stock_filter) simp
  finally show ?thesis
    using assms(3) by (simp add: looked_up_def ledger_stock_def canonical_def)
qed

subsection \<open>Annotation by the rules\<close>

lemma validate_cart_item_eq:
  "validate_cart_item m x c =
     (\<lparr>vd_item = x, realStock = looked_up m x,
       hasSufficientStock = (pk_quantity x \<le> looked_up m x),
       isLowStock = Some (0 < looked_up m x \<and> looked_up m x \<le> 3),
       isOutOfStock = (looked_up m x = 0)\<rparr>,
      c \<and> looked_up m x \<noteq> 0 \<and> \<not> (0 < looked_up m x \<and> \<not> pk_quantity x \<le> looked_up m x))"
  unfolding validate_cart_item_def looked_up_def [symmetric] Let_def
  by auto

lemma validate_cart_item_item: "vd_item (fst (validate_cart_item m x c)) = x"
  by (simp add: validate_cart_item_eq)

lemma validate_cart_item_rules:
  assumes "0 \<le> looked_up m x" "1 \<le> pk_quantity x"
  shows "follows_rules (pk_quantity x) (fst (validate_cart_item m x c))"
  using assms by (simp add: validate_cart_item_eq follows_rules_def)

lemma validate_cart_item_flag:
  assumes "0 \<le> looked_up m x" "1 \<le> pk_quantity x"
  shows "snd (validate_cart_item m x c) = (c \<and> hasSufficientStock (fst (validate_cart_item m x c)))"
  using assms by (auto simp: validate_cart_item_eq)

lemma validate_items_Cons:
  "validate_items m (x # items) c =
     (fst (validate_cart_item m x c) #
        fst (validate_items m items (snd (validate_cart_item m x c))),
      snd (validate_items m items (snd (validate_cart_item m x c))))"
  by (simp split: prod.splits)

lemma validate_items_rules:
  assumes "\<And>x. 0 \<le> looked_up m x" "\<forall>x\<in>set items. 1 \<le> pk_quantity x"
  shows "map vd_item (fst (validate_items m items c)) = items \<and>
         list_all (\<lambda>a. follows_rules (pk_quantity (vd_item a)) a) (fst (validate_items m items c)) \<and>
         snd (validate_items m items c) =
           (c \<and> list_all hasSufficientStock (fst (validate_items m items c)))"
  using assms(2)
proof (induction items arbitrary: c)
  case Nil
  show ?case by simp
next
  case (Cons x items)
  have q: "1 \<le> pk_quantity x" and nn: "0 \<le> looked_up m x"
    using Cons.prems assms(1) by simp_all
  have rest: "\<forall>x\<in>set items. 1 \<le> pk_quantity x"
    using Cons.prems by simp
  note ih = Cons.IH [OF rest, of "snd (validate_cart_item m x c)"]
  show ?case
    unfolding validate_items_Cons
    using ih validate_cart_item_rules [OF nn q, of c] validate_cart_item_flag [OF nn q, of c]
    by (simp add: validate_cart_item_item)
qed

lemma validate_cart_shape:
  assumes "Product_find_in e (remdups (map pk_id items)) (products s) = Some qs"
  shows "validate_cart e items s =
     Response 200
       (ValidatedCart (fst (validate_items (build_stockMap qs) items True))
          (snd (validate_items (build_stockMap qs) items True)))"
  using assms by (simp add: validate_cart_def Let_def split: prod.splits)

lemma validate_items_realStock:
  "list_all (\<lambda>a. realStock a = looked_up m (vd_item a)) (fst (validate_items m items c))"
  by (induction items arbitrary: c)
    (simp_all add: validate_items_Cons validate_cart_item_eq del: validate_items.simps(2))

lemma list_all_conj_mem:
  assumes "list_all P xs" "list_all Q xs" "\<And>a. a \<in> set xs \<Longrightarrow> P a \<Longrightarrow> R a"
  shows "list_all (\<lambda>a. R a \<and> Q a) xs"
  using assms by (auto simp: list_all_iff)

lemma validate_cart_rules:
  assumes "stock_nonneg (products s)" "ledger_keyed (products s)"
    "ledger_dash_free (products s)"
    "list_all (\<lambda>x. 1 \<le> pk_quantity x \<and> canonical e (pk_id x) \<and>
                    dash_free (pk_id x) \<and> dash_free (pk_size x)) items"
  shows "\<exists>vs. validate_cart e items s =
                 Response 200 (ValidatedCart vs (list_all hasSufficientStock vs)) \<and>
              map vd_item vs = items \<and>
              list_all (\<lambda>a. realStock a =
                               ledger_stock e (products s) (pk_id (vd_item a))
                                 (pk_size (vd_item a)) (pk_colorName (vd_item a)) \<and>
                             follows_rules (pk_quantity (vd_item a)) a) vs"
proof -
  let ?qs = "filter (\<lambda>p. p_id p \<in> pk_id ` set items) (products s)"
  let ?m = "build_stockMap ?qs"
  let ?vs = "fst (validate_items ?m items True)"
  from assms(4) have c: "list_all (\<lambda>x. canonical e (pk_id x)) items"
    and q: "\<forall>x\<in>set items. 1 \<le> pk_quantity x"
    by (simp_all add: list_all_iff)
  note qs = Product_find_in_canonical [OF c, of "products s"]
  have nn: "0 \<le> looked_up ?m x" for x
    using assms(1) by (rule build_stockMap_nonneg) simp
  note r = validate_items_rules [of ?m items True, OF nn q]
  have "list_all (\<lambda>a. realStock a =
                         ledger_stock e (products s) (pk_id (vd_item a))
                           (pk_size (vd_item a)) (pk_colorName (vd_item a)) \<and>
                       follows_rules (pk_quantity (vd_item a)) a) ?vs"
  proof (rule list_all_conj_mem)
    show "list_all (\<lambda>a. realStock a = looked_up ?m (vd_item a)) ?vs"
      by (rule validate_items_realStock)
    show "list_all (\<lambda>a. follows_rules (pk_quantity (vd_item a)) a) ?vs"
      using r by simp
    show "realStock a =
          ledger_stock e (products s) (pk_id (vd_item a)) (pk_size (vd_item a))
            (pk_colorName (vd_item a))"
      if "a \<in> set ?vs" "realStock a = looked_up ?m (vd_item a)" for a
    proof -
      from that(1) have "vd_item a \<in> set (map vd_item ?vs)"
        by simp
      with r have x: "vd_item a \<in> set items"
        by simp
      with assms(4) have "canonical e (pk_id (vd_item a))" "dash_free (pk_id (vd_item a))"
        "dash_free (pk_size (vd_item a))"
        by (simp_all add: list_all_iff)
      from looked_up_ledger [OF assms(3,2) this x] that(2) show ?thesis
        by simp
    qed
  qed
  with r validate_cart_shape [OF qs] show ?thesis
    by simp
qed

lemma validate_guest_item_item: "vd_item (fst (validate_guest_item e ps x c)) = x"
  by (simp add: validate_guest_item_def out_of_stock_def split: option.splits awaited.splits)

lemma validate_guest_item_rules:
  assumes "1 \<le> gi_quantity x"
  shows "follows_rules (gi_quantity x) (fst (validate_guest_item e ps x c))"
  using assms
  by (simp add: validate_guest_item_def out_of_stock_def follows_rules_def
      split: option.splits awaited.splits)

lemma validate_guest_item_flag:
  "snd (validate_guest_item e ps x c) =
     (c \<and> hasSufficientStock (fst (validate_guest_item e ps x c)))"
  by (simp add: validate_guest_item_def out_of_stock_def split: option.splits awaited.splits)

lemma validate_guest_items_Cons:
  "validate_guest_items e ps (x # items) c =
     (fst (validate_guest_item e ps x c) #
        fst (validate_guest_items e ps items (snd (validate_guest_item e ps x c))),
      snd (validate_guest_items e ps items (snd (validate_guest_item e ps x c))))"
  by (simp split: prod.splits)

lemma validate_guest_items_rules:
  assumes "\<forall>x\<in>set items. 1 \<le> gi_quantity x"
  shows "map vd_item (fst (validate_guest_items e ps items c)) = items \<and>
         list_all (\<lambda>a. follows_rules (gi_quantity (vd_item a)) a)
           (fst (validate_guest_items e ps items c)) \<and>
         snd (validate_guest_items e ps items c) =
           (c \<and> list_all hasSufficientStock (fst (validate_guest_items e ps items c)))"
  using assms
proof (induction items arbitrary: c)
  case Nil
  show ?case by simp
next
  case (Cons x items)
  have q: "1 \<le> gi_quantity x"
    using Cons.prems by simp
  have rest: "\<forall>x\<in>set items. 1 \<le> gi_quantity x"
    using Cons.prems by simp
  note ih = Cons.IH [OF rest, of "snd (validate_guest_item e ps x c)"]
  show ?case
    unfolding validate_guest_items_Cons
    using ih validate_guest_item_rules [OF q, of e ps c] validate_guest_item_flag [of e ps x c]
    by (simp add: validate_guest_item_item)
qed

lemma validate_guest_shape:
  "validate_guest e guestCart s =
     Response 200
       (ValidatedGuest (fst (validate_guest_items e (products s) guestCart True))
          (snd (validate_guest_items e (products s) guestCart True)))"
  by (simp add: validate_guest_def split: prod.splits)

lemma validate_guest_item_realStock:
  assumes "gi_productId x \<noteq> []" "gi_size x \<noteq> []" "gi_colorName x \<noteq> []"
  shows "realStock (fst (validate_guest_item e ps x c)) =
         ledger_stock e ps (gi_productId x) (gi_size x) (gi_colorName x)"
  using assms
  by (simp add: validate_guest_item_def out_of_stock_def ledger_stock_def variant_stock_def
      Product_findById_def split: option.splits)

lemma validate_guest_items_realStock:
  assumes "\<forall>x\<in>set items. gi_productId x \<noteq> [] \<and> gi_size x \<noteq> [] \<and> gi_colorName x \<noteq> []"
  shows "list_all (\<lambda>a. realStock a =
                         ledger_stock e ps (gi_productId (vd_item a)) (gi_size (vd_item a))
                           (gi_colorName (vd_item a)))
           (fst (validate_guest_items e ps items c))"
  using assms
  by (induction items arbitrary: c)
    (simp_all add: validate_guest_items_Cons validate_guest_item_realStock
      validate_guest_item_item del: validate_guest_items.simps(2))

lemma validate_guest_rules:
  assumes "list_all (\<lambda>x. 1 \<le> gi_quantity x \<and> gi_productId x \<noteq> [] \<and> gi_size x \<noteq> [] \<and>
                          gi_colorName x \<noteq> []) guestCart"
  shows "\<exists>vs. validate_guest e guestCart s =
                 Response 200 (ValidatedGuest vs (list_all hasSufficientStock vs)) \<and>
              map vd_item vs = guestCart \<and>
              list_all (\<lambda>a. realStock a =
                               ledger_stock e (products s) (gi_productId (vd_item a))
                                 (gi_size (vd_item a)) (gi_colorName (vd_item a)) \<and>
                             follows_rules (gi_quantity (vd_item a)) a) vs"
proof -
  let ?vs = "fst (validate_guest_items e (products s) guestCart True)"
  from assms have q: "\<forall>x\<in>set guestCart. 1 \<le> gi_quantity x"
    and n: "\<forall>x\<in>set guestCart. gi_productId x \<noteq> [] \<and> gi_size x \<noteq> [] \<and> gi_colorName x \<noteq> []"
    by (simp_all add: list_all_iff)
  note r = validate_guest_items_rules [of guestCart e "products s" True, OF q]
  have "list_all (\<lambda>a. realStock a =
                         ledger_stock e (products s) (gi_productId (vd_item a))
                           (gi_size (vd_item a)) (gi_colorName (vd_item a)) \<and>
                       follows_rules (gi_quantity (vd_item a)) a) ?vs"
    using validate_guest_items_realStock [OF n, of e "products s" True] r
    by (simp add: list_all_iff)
  with r validate_guest_shape [of e guestCart s] show ?thesis
    by simp
qed

text \<open>
  C4, as claimed: for every list of picks and every ledger, both validators annotate
  each pick by the rules, \<open>realStock\<close> being the stock the ledger holds for the
  pick, and \<open>canCheckout\<close> is the conjunction of \<open>hasSufficientStock\<close>.
  validate-cart does not, at six inputs. With a stock of -1 (the ledger that two verified
  checkouts leave, see C1) a pick of quantity 1 is annotated as not sufficient while
  \<open>canCheckout\<close> stays true: the flag is cleared only for a stock of 0 and for a
  positive stock below the quantity. With a quantity of 0 a pick of a missing product has
  \<open>realStock = 0\<close> and \<open>hasSufficientStock = true\<close>, since sufficiency is the
  comparison \<open>realStock >= quantity\<close> alone. One pick whose id is no id makes the
  query throw: the batch is answered 500 and no pick is annotated. The variants
  (M-L, Black) with stock 5 and (M, L-Black) with stock 2 have the same key, so a pick of
  three (M-L, Black) is annotated with the stock 2 of the other variant, not sufficient.
  A pick that spells the id of the shirt in upper case is annotated as out of stock while
  three are in stock: the query finds the product, and the key made of the pick's
  spelling is not the key made of the stored id. And where a product lists (M, Black)
  twice, with stocks 0 and 5, the map holds the last stock while every other reader of
  the ledger takes the first.
\<close>

theorem validate_cart_breaks_rules:
  "validate_cart shop_env [picked p1 ''M'' ''Black'' 1] (shop\<lparr>products := [shirt (- 1)]\<rparr>) =
     Response 200
       (ValidatedCart
          [\<lparr>vd_item = picked p1 ''M'' ''Black'' 1, realStock = - 1,
            hasSufficientStock = False, isLowStock = Some False, isOutOfStock = False\<rparr>]
          True) \<and>
   validate_cart shop_env [picked p9 ''M'' ''Black'' 0] shop =
     Response 200
       (ValidatedCart
          [\<lparr>vd_item = picked p9 ''M'' ''Black'' 0, realStock = 0,
            hasSufficientStock = True, isLowStock = Some False, isOutOfStock = True\<rparr>]
          False) \<and>
   validate_cart shop_env [picked p1 ''M'' ''Black'' 1, picked ''stale'' ''M'' ''Black'' 1] shop =
     Response 500 (Message ''Server error'') \<and>
   ledger_stock shop_env [uneven_splits] p1 ''M-L'' ''Black'' = 5 \<and>
   validate_cart shop_env [picked p1 ''M-L'' ''Black'' 3] (shop\<lparr>products := [uneven_splits]\<rparr>) =
     Response 200
       (ValidatedCart
          [\<lparr>vd_item = picked p1 ''M-L'' ''Black'' 3, realStock = 2,
            hasSufficientStock = False, isLowStock = Some True, isOutOfStock = False\<rparr>]
          False) \<and>
   ledger_stock shop_env (products shop) P1_upper ''M'' ''Black'' = 3 \<and>
   validate_cart shop_env [picked P1_upper ''M'' ''Black'' 1] shop =
     Response 200
       (ValidatedCart
          [\<lparr>vd_item = picked P1_upper ''M'' ''Black'' 1, realStock = 0,
            hasSufficientStock = False, isLowStock = Some False, isOutOfStock = True\<rparr>]
          False) \<and>
   ledger_stock shop_env [twice_listed] p1 ''M'' ''Black'' = 0 \<and>
   validate_cart shop_env [picked p1 ''M'' ''Black'' 1] (shop\<lparr>products := [twice_listed]\<rparr>) =
     Response 200
       (ValidatedCart
          [\<lparr>vd_item = picked p1 ''M'' ''Black'' 1, realStock = 5,
            hasSufficientStock = True, isLowStock = Some False, isOutOfStock = False\<rparr>]
          True)"
  by (simp add: validate_defs shop_defs ledger_stock_def variant_stock_def)

text \<open>
  C4, amended. validate-cart: for every ledger that is keyed as the data model says
  (product ids unique, (size, colorName) unique within a product), holds no negative
  stock and has no \<open>-\<close> in its product ids and sizes, and for every list of picks
  whose quantities are at least 1 and whose product ids are in canonical form and, like
  their sizes, without \<open>-\<close>, the answer is 200 with the picks in order, each annotated
  with the stock the ledger holds for it as \<open>realStock\<close> and with the flags the
  rules give for that stock, and \<open>canCheckout\<close> is the conjunction of
  \<open>hasSufficientStock\<close> over them. validate-guest: the same for every ledger and
  every list of guest items that name a product, a size and a colour with a quantity of
  at least 1.
\<close>

theorem validators_follow_rules:
  "(stock_nonneg (products s) \<and> ledger_keyed (products s) \<and> ledger_dash_free (products s) \<and>
    list_all (\<lambda>x. 1 \<le> pk_quantity x \<and> canonical e (pk_id x) \<and>
                   dash_free (pk_id x) \<and> dash_free (pk_size x)) items \<longrightarrow>
      (\<exists>vs. validate_cart e items s =
               Response 200 (ValidatedCart vs (list_all hasSufficientStock vs)) \<and>
            map vd_item vs = items \<and>
            list_all (\<lambda>a. realStock a =
                             ledger_stock e (products s) (pk_id (vd_item a))
                               (pk_size (vd_item a)) (pk_colorName (vd_item a)) \<and>
                           follows_rules (pk_quantity (vd_item a)) a) vs)) \<and>
   (list_all (\<lambda>x. 1 \<le> gi_quantity x \<and> gi_productId x \<noteq> [] \<and> gi_size x \<noteq> [] \<and>
                   gi_colorName x \<noteq> []) guestCart \<longrightarrow>
      (\<exists>vs. validate_guest e guestCart s =
               Response 200 (ValidatedGuest vs (list_all hasSufficientStock vs)) \<and>
            map vd_item vs = guestCart \<and>
            list_all (\<lambda>a. realStock a =
                             ledger_stock e (products s) (gi_productId (vd_item a))
                               (gi_size (vd_item a)) (gi_colorName (vd_item a)) \<and>
                           follows_rules (gi_quantity (vd_item a)) a) vs))"
  using validate_cart_rules [of s e items] validate_guest_rules [of guestCart e s]
  by blast

text \<open>
  Against the shop with three shirts (M, Black): picks of two and of five of them and a
  pick of a product that does not exist, by both validators.
\<close>

theorem validators_follow_rules_witness:
  "stock_nonneg (products shop) \<and> ledger_keyed (products shop) \<and>
   ledger_dash_free (products shop) \<and>
   list_all (\<lambda>x. 1 \<le> pk_quantity x \<and> canonical shop_env (pk_id x) \<and>
                  dash_free (pk_id x) \<and> dash_free (pk_size x)) basket \<and>
   list_all (\<lambda>x. 1 \<le> gi_quantity x \<and> gi_productId x \<noteq> [] \<and> gi_size x \<noteq> [] \<and>
                  gi_colorName x \<noteq> []) guest_basket \<and>
   ledger_stock shop_env (products shop) p1 ''M'' ''Black'' = 3 \<and>
   ledger_stock shop_env (products shop) p9 ''S'' ''Red'' = 0 \<and>
   validate_cart shop_env basket shop =
     Response 200
       (ValidatedCart
          [\<lparr>vd_item = picked p1 ''M'' ''Black'' 2, realStock = 3,
            hasSufficientStock = True, isLowStock = Some True, isOutOfStock = False\<rparr>,
           \<lparr>vd_item = picked p1 ''M'' ''Black'' 5, realStock = 3,
            hasSufficientStock = False, isLowStock = Some True, isOutOfStock = False\<rparr>,
           \<lparr>vd_item = picked p9 ''S'' ''Red'' 1, realStock = 0,
            hasSufficientStock = False, isLowStock = Some False, isOutOfStock = True\<rparr>]
          False) \<and>
   validate_guest shop_env guest_basket shop =
     Response 200
       (ValidatedGuest
          [\<lparr>vd_item = guest_pick p1 ''M'' ''Black'' 2, realStock = 3,
            hasSufficientStock = True, isLowStock = Some True, isOutOfStock = False\<rparr>,
           \<lparr>vd_item = guest_pick p1 ''M'' ''Black'' 5, realStock = 3,
            hasSufficientStock = False, isLowStock = Some True, isOutOfStock = False\<rparr>,
           \<lparr>vd_item = guest_pick p9 ''S'' ''Red'' 1, realStock = 0,
            hasSufficientStock = False, isLowStock = None, isOutOfStock = True\<rparr>]
          False) \<and>
   (\<exists>vs. validate_cart shop_env basket shop =
            Response 200 (ValidatedCart vs (list_all hasSufficientStock vs)) \<and>
         map vd_item vs = basket \<and>
         list_all (\<lambda>a. realStock a =
                          ledger_stock shop_env (products shop) (pk_id (vd_item a))
                            (pk_size (vd_item a)) (pk_colorName (vd_item a)) \<and>
                        follows_rules (pk_quantity (vd_item a)) a) vs) \<and>
   (\<exists>vs. validate_guest shop_env guest_basket shop =
            Response 200 (ValidatedGuest vs (list_all hasSufficientStock vs)) \<and>
         map vd_item vs = guest_basket \<and>
         list_all (\<lambda>a. realStock a =
                          ledger_stock shop_env (products shop) (gi_productId (vd_item a))
                            (gi_size (vd_item a)) (gi_colorName (vd_item a)) \<and>
                        follows_rules (gi_quantity (vd_item a)) a) vs)"
proof -
  have h: "stock_nonneg (products shop) \<and> ledger_keyed (products shop) \<and>
      ledger_dash_free (products shop) \<and>
      list_all (\<lambda>x. 1 \<le> pk_quantity x \<and> canonical shop_env (pk_id x) \<and>
                     dash_free (pk_id x) \<and> dash_free (pk_size x)) basket"
    "list_all (\<lambda>x. 1 \<le> gi_quantity x \<and> gi_productId x \<noteq> [] \<and> gi_size x \<noteq> [] \<and>
                    gi_colorName x \<noteq> []) guest_basket"
    by (simp_all add: stock_nonneg_def ledger_keyed_def ledger_dash_free_def dash_free_def
        canonical_def shop_defs)
  have l: "ledger_stock shop_env (products shop) p1 ''M'' ''Black'' = 3"
    "ledger_stock shop_env (products shop) p9 ''S'' ''Red'' = 0"
    by (simp_all add: ledger_stock_def variant_stock_def validate_defs shop_defs)
  have c: "validate_cart shop_env basket shop =
     Response 200
       (ValidatedCart
          [\<lparr>vd_item = picked p1 ''M'' ''Black'' 2, realStock = 3,
            hasSufficientStock = True, isLowStock = Some True, isOutOfStock = False\<rparr>,
           \<lparr>vd_item = picked p1 ''M'' ''Black'' 5, realStock = 3,
            hasSufficientStock = False, isLowStock = Some True, isOutOfStock = False\<rparr>,
           \<lparr>vd_item = picked p9 ''S'' ''Red'' 1, realStock = 0,
            hasSufficientStock = False, isLowStock = Some False, isOutOfStock = True\<rparr>]
          False)"
    by (simp add: validate_defs shop_defs)
  have g: "validate_guest shop_env guest_basket shop =
     Response 200
       (ValidatedGuest
          [\<lparr>vd_item = guest_pick p1 ''M'' ''Black'' 2, realStock = 3,
            hasSufficientStock = True, isLowStock = Some True, isOutOfStock = False\<rparr>,
           \<lparr>vd_item = guest_pick p1 ''M'' ''Black'' 5, realStock = 3,
            hasSufficientStock = False, isLowStock = Some True, isOutOfStock = False\<rparr>,
           \<lparr>vd_item = guest_pick p9 ''S'' ''Red'' 1, realStock = 0,
            hasSufficientStock = False, isLowStock = None, isOutOfStock = True\<rparr>]
          False)"
    by (simp add: validate_defs shop_defs)
  from validators_follow_rules [of shop shop_env basket guest_basket] h l c g show ?thesis
    by blast
qed

subsection \<open>Picks whose variant does not exist\<close>
















section \<open>Sums of doubles\<close>

lemma to_double_safe: "\<bar>n\<bar> \<le> 2 ^ 53 \<Longrightarrow> to_double n = n"
  by (simp add: to_double_def)

lemma js_add_safe: "\<bar>a + b\<bar> \<le> 2 ^ 53 \<Longrightarrow> js_add a b = a + b"
  by (simp add: js_add_def to_double_safe)






section \<open>Cart add\<close>

lemma findIndex_None: "findIndex P xs = None \<longleftrightarrow> find P xs = None"
  by (induction xs) auto

lemma findIndex_Some:
  "findIndex P xs = Some i \<Longrightarrow>
     i < length xs \<and> find P xs = Some (xs ! i) \<and> xs[i := f (xs ! i)] = update_first P f xs"
proof (induction xs arbitrary: i)
  case Nil
  then show ?case by simp
next
  case (Cons x xs)
  show ?case
  proof (cases "P x")
    case True
    with Cons.prems show ?thesis by simp
  next
    case False
    with Cons.prems obtain j where j: "findIndex P xs = Some j" "i = Suc j"
      by auto
    from Cons.IH [OF j(1)] j(2) False show ?thesis by simp
  qed
qed

lemma find_Some_findIndex:
  "find P xs = Some l \<Longrightarrow> \<exists>i. findIndex P xs = Some i \<and> xs ! i = l"
  by (induction xs) (auto split: if_splits)

lemma filter_update_first_length:
  assumes "\<And>x. P x \<Longrightarrow> P (f x)"
  shows "length (filter P (update_first P f xs)) = length (filter P xs)"
  using assms by (induction xs) auto

lemma list_all_update_first:
  assumes "list_all Q xs" "\<And>x. x \<in> set xs \<Longrightarrow> P x \<Longrightarrow> Q x \<Longrightarrow> Q (f x)"
  shows "list_all Q (update_first P f xs)"
  using assms by (induction xs) auto

lemma Cart_findOne_save: "Cart_findOne (c_user c) (Cart_save c cs) = Some c"
  unfolding Cart_findOne_def Cart_save_def
  by (induction cs) auto

lemma get_cart_user: "c_user (get_cart user s) = user"
  unfolding get_cart_def Cart_findOne_def
  by (auto split: option.splits dest: find_Some_holds)

lemma get_cart_of_save:
  assumes "c_user c = user"
  shows "get_cart user (s\<lparr>carts := Cart_save c cs\<rparr>) = c"
  using Cart_findOne_save [of c cs] assms by (simp add: get_cart_def)

lemma get_cart_saved:
  "get_cart user (s\<lparr>carts := Cart_save ((get_cart user s)\<lparr>c_items := items\<rparr>) (carts s)\<rparr>) =
     (get_cart user s)\<lparr>c_items := items\<rparr>"
  by (rule get_cart_of_save) (simp add: get_cart_user)

lemma variant_stock_Some:
  "variant_stock ps i sz col = Some st \<longleftrightarrow>
     (\<exists>p v. Product_byId i ps = Some p \<and> find_variant p sz col = Some v \<and> v_stock v = st)"
  by (auto simp: variant_stock_def split: option.splits)

lemma cart_add_present:
  assumes wf: "add_well_formed e req"
    and st: "variant_stock (products s) (ar_productId req) (ar_size req) (ar_colorName req) = Some st"
    and valid: "cart_valid (get_cart user s)"
    and present: "find (req_line req) (c_items (get_cart user s)) = Some l"
    and safe: "ci_quantity l + ar_quantity req \<le> 2 ^ 53"
  shows "cart_add e user req s =
     (if ci_quantity l + ar_quantity req > st
      then (Response 400 (CannotAdd (ci_quantity l + ar_quantity req) st), s)
      else (Response 200
              (CartItems (update_first (req_line req) (add_quantity (ar_quantity req))
                            (c_items (get_cart user s)))),
            s\<lparr>carts := Cart_save
                 ((get_cart user s)
                    \<lparr>c_items := update_first (req_line req) (add_quantity (ar_quantity req))
                                  (c_items (get_cart user s))\<rparr>) (carts s)\<rparr>))"
proof -
  let ?items = "c_items (get_cart user s)"
  from st obtain p v where p: "Product_byId (ar_productId req) (products s) = Some p" and pv:
    "find_variant p (ar_size req) (ar_colorName req) = Some v" "v_stock v = st"
    by (auto simp: variant_stock_Some)
  from wf have can: "canonical e (ar_productId req)"
    by (simp add: add_well_formed_def)
  from Product_findById_canonical [OF can, of "products s"] p
  have pf: "Product_findById e (ar_productId req) (products s) = Returned p"
    by simp
  note to = toObjectId_canonical [OF can]
  from present obtain i where i: "findIndex (req_line req) ?items = Some i" "?items ! i = l"
    by (auto dest: find_Some_findIndex)
  from findIndex_Some [OF i(1), of "add_quantity (ar_quantity req)"] i(2)
  have upd: "?items[i := l\<lparr>ci_quantity := ci_quantity l + ar_quantity req\<rparr>] =
             update_first (req_line req) (add_quantity (ar_quantity req)) ?items"
    by (simp add: add_quantity_def)
  have l: "l \<in> set ?items"
    using present by (rule find_Some_mem)
  have q: "1 \<le> ar_quantity req"
    using wf by (simp add: add_well_formed_def)
  from l valid have "1 \<le> ci_quantity l"
    by (simp add: cart_valid_def cart_item_valid_def list_all_iff)
  with q safe have sum: "js_add (ci_quantity l) (ar_quantity req) = ci_quantity l + ar_quantity req"
    by (intro js_add_safe) simp
  have "list_all cart_item_valid (update_first (req_line req) (add_quantity (ar_quantity req)) ?items)"
  proof (rule list_all_update_first)
    show "list_all cart_item_valid ?items"
      using valid by (simp add: cart_valid_def)
    show "cart_item_valid (add_quantity (ar_quantity req) x)" if "cart_item_valid x" for x
      using that q by (simp add: cart_item_valid_def add_quantity_def)
  qed
  then have ok: "cart_valid ((get_cart user s)
      \<lparr>c_items := update_first (req_line req) (add_quantity (ar_quantity req)) ?items\<rparr>)"
    by (simp add: cart_valid_def)
  show ?thesis
    using wf pf to pv i upd ok sum
    by (simp add: cart_add_def add_well_formed_def req_line_def Let_def)
qed

lemma cart_add_absent:
  assumes wf: "add_well_formed e req"
    and st: "variant_stock (products s) (ar_productId req) (ar_size req) (ar_colorName req) = Some st"
    and valid: "cart_valid (get_cart user s)"
    and absent: "find (req_line req) (c_items (get_cart user s)) = None"
  shows "cart_add e user req s =
     (if ar_quantity req > st
      then (Response 400 (CannotAdd (ar_quantity req) st), s)
      else (Response 200 (CartItems (c_items (get_cart user s) @ [req_item req])),
            s\<lparr>carts := Cart_save
                 ((get_cart user s)\<lparr>c_items := c_items (get_cart user s) @ [req_item req]\<rparr>)
                 (carts s)\<rparr>))"
proof -
  let ?items = "c_items (get_cart user s)"
  from st obtain p v where p: "Product_byId (ar_productId req) (products s) = Some p" and pv:
    "find_variant p (ar_size req) (ar_colorName req) = Some v" "v_stock v = st"
    by (auto simp: variant_stock_Some)
  from wf have can: "canonical e (ar_productId req)"
    by (simp add: add_well_formed_def)
  from Product_findById_canonical [OF can, of "products s"] p
  have pf: "Product_findById e (ar_productId req) (products s) = Returned p"
    by simp
  note to = toObjectId_canonical [OF can]
  from absent have i: "findIndex (req_line req) ?items = None"
    by (simp add: findIndex_None)
  have "cart_item_valid (req_item req)"
    using wf by (simp add: cart_item_valid_def req_item_def add_well_formed_def)
  then have ok: "cart_valid ((get_cart user s)\<lparr>c_items := ?items @ [req_item req]\<rparr>)"
    using valid by (simp add: cart_valid_def)
  show ?thesis
    using wf pf to pv i ok
    by (simp add: cart_add_def add_well_formed_def req_line_def req_item_def Let_def)
qed

lemma find_append_None: "find P xs = None \<Longrightarrow> find P (xs @ ys) = find P ys"
  by (induction xs) (auto split: if_splits)

lemma find_update_first:
  assumes "\<And>x. P x \<Longrightarrow> P (f x)"
  shows "find P (update_first P f xs) = map_option f (find P xs)"
  using assms by (induction xs) auto

lemma filter_not_update_first:
  assumes "\<And>x. P x \<Longrightarrow> P (f x)"
  shows "filter (\<lambda>x. \<not> P x) (update_first P f xs) = filter (\<lambda>x. \<not> P x) xs"
  using assms by (induction xs) auto

lemma req_line_add_quantity: "req_line req l \<Longrightarrow> req_line req (add_quantity q l)"
  by (simp add: req_line_def same_line_def add_quantity_def)

lemma ci_quantity_req_item: "ci_quantity (req_item req) = ar_quantity req"
  by (simp add: req_item_def)

lemma req_line_req_item: "req_line req (req_item req)"
  by (simp add: req_line_def same_line_def req_item_def)

lemma upsert_lines:
  "length (filter (req_line req) (upsert req items)) =
     max 1 (length (filter (req_line req) items))"
proof (cases "list_ex (req_line req) items")
  case True
  then have "filter (req_line req) items \<noteq> []"
    by (simp add: list_ex_iff filter_empty_conv)
  then have "1 \<le> length (filter (req_line req) items)"
    by (cases "filter (req_line req) items") simp_all
  with True show ?thesis
    by (simp add: upsert_def filter_update_first_length req_line_add_quantity)
next
  case False
  then have "filter (req_line req) items = []"
    by (simp add: list_ex_iff filter_empty_conv)
  with False show ?thesis
    by (simp add: upsert_def req_line_req_item)
qed

lemma upsert_quantity:
  "map_option ci_quantity (find (req_line req) (upsert req items)) =
     Some (merged_quantity req items)"
proof (cases "find (req_line req) items")
  case None
  then show ?thesis
    by (simp add: upsert_def merged_quantity_def list_ex_find find_append_None
        req_line_req_item ci_quantity_req_item)
next
  case (Some l)
  have "find (req_line req) (update_first (req_line req) (add_quantity (ar_quantity req)) items) =
        map_option (add_quantity (ar_quantity req)) (find (req_line req) items)"
    by (rule find_update_first) (rule req_line_add_quantity)
  with Some show ?thesis
    by (simp add: upsert_def merged_quantity_def list_ex_find add_quantity_def)
qed

lemma upsert_others:
  "filter (\<lambda>l. \<not> req_line req l) (upsert req items) = filter (\<lambda>l. \<not> req_line req l) items"
  by (simp add: upsert_def filter_not_update_first req_line_add_quantity req_line_req_item)

text \<open>
  C7, as claimed: every add of a tuple already in the cart leaves one line of the tuple
  with the sum of the quantities, is rejected with the cart unchanged when that sum
  exceeds the stock, and upserts otherwise. Five inputs say otherwise. The lines of the
  cart are compared with the product id as the request spells it: the request that spells
  the id of the shirt in upper case is accepted, and a second line of (p1, M, Black) is
  pushed beside the first. Where the cart holds two lines of the tuple, of 2 and 1, an
  add of 1 at stock 3 is accepted and leaves the two lines, of 3 and 1. The sum is a sum
  of doubles: at stock \<open>2^53\<close> a line of 1 and an add of \<open>2^53\<close> are rounded to
  \<open>2^53\<close>, accepted and stored. An add of quantity -1, which does not exceed the stock,
  is not upserted: the schema rejects the line and the answer is 500. And an item whose
  price is 0 is answered 400 by the first check of the route.
\<close>

theorem cart_add_splits_or_rounds:
  "fst (cart_add shop_env ''alice'' ((add_shirts 3)\<lparr>ar_productId := P1_upper\<rparr>)
     (shop\<lparr>products := [shirt 5], carts := [cart_of [shirt_line ''M'' ''Black'' 2]]\<rparr>)) =
     Response 200 (CartItems [shirt_line ''M'' ''Black'' 2, shirt_line ''M'' ''Black'' 3]) \<and>
   fst (cart_add shop_env ''alice'' (add_shirts 1)
     (shop\<lparr>carts := [cart_of [shirt_line ''M'' ''Black'' 2, shirt_line ''M'' ''Black'' 1]]\<rparr>)) =
     Response 200 (CartItems [shirt_line ''M'' ''Black'' 3, shirt_line ''M'' ''Black'' 1]) \<and>
   fst (cart_add shop_env ''alice'' (add_shirts 9007199254740992)
     (shop\<lparr>products := [shirt 9007199254740992],
           carts := [cart_of [shirt_line ''M'' ''Black'' 1]]\<rparr>)) =
     Response 200 (CartItems [shirt_line ''M'' ''Black'' 9007199254740992]) \<and>
   cart_add shop_env ''alice'' (add_shirts (- 1)) shop =
     (Response 500 (Message ''Server Error''), shop) \<and>
   cart_add shop_env ''alice'' ((add_shirts 1)\<lparr>ar_price := 0\<rparr>) shop =
     (Response 400 (Message ''Missing required item properties.''), shop)"
  by (simp add: cart_defs shop_defs js_add_def to_double_def round_to_even_def
      bit_length.simps Let_def)

text \<open>
  C7, amended. For an add request that carries every required property (product id,
  size, colour, name and image not empty, a price that is not 0) with a quantity of at
  least 1 and the product id in canonical form, whose variant exists with stock
  \<open>st\<close>, on a stored cart that satisfies its schema and holds at most one line of
  the tuple, where the merged quantity is at most \<open>2^53\<close>: the call is rejected with
  400 and the database is unchanged when the merged quantity exceeds \<open>st\<close>;
  otherwise it answers 200 and the cart holds the upsert. After the upsert the cart has
  exactly one line of the tuple, that line carries the merged quantity, and every other
  line is as before.
\<close>

theorem cart_add_merges:
  assumes "add_well_formed e req"
    and "variant_stock (products s) (ar_productId req) (ar_size req) (ar_colorName req) = Some st"
    and "cart_valid (get_cart user s)"
    and "length (filter (req_line req) (c_items (get_cart user s))) \<le> 1"
    and "merged_quantity req (c_items (get_cart user s)) \<le> 2 ^ 53"
  shows
    "cart_add e user req s =
       (if merged_quantity req (c_items (get_cart user s)) > st
        then (Response 400 (CannotAdd (merged_quantity req (c_items (get_cart user s))) st), s)
        else (Response 200 (CartItems (upsert req (c_items (get_cart user s)))),
              s\<lparr>carts := Cart_save
                   ((get_cart user s)\<lparr>c_items := upsert req (c_items (get_cart user s))\<rparr>)
                   (carts s)\<rparr>)) \<and>
     (if merged_quantity req (c_items (get_cart user s)) > st
      then get_cart user (snd (cart_add e user req s)) = get_cart user s
      else c_items (get_cart user (snd (cart_add e user req s))) =
             upsert req (c_items (get_cart user s))) \<and>
     length (filter (req_line req) (upsert req (c_items (get_cart user s)))) = 1 \<and>
     map_option ci_quantity (find (req_line req) (upsert req (c_items (get_cart user s)))) =
       Some (merged_quantity req (c_items (get_cart user s))) \<and>
     filter (\<lambda>l. \<not> req_line req l) (upsert req (c_items (get_cart user s))) =
       filter (\<lambda>l. \<not> req_line req l) (c_items (get_cart user s))"
proof -
  let ?items = "c_items (get_cart user s)"
  have eq: "cart_add e user req s =
       (if merged_quantity req ?items > st
        then (Response 400 (CannotAdd (merged_quantity req ?items) st), s)
        else (Response 200 (CartItems (upsert req ?items)),
              s\<lparr>carts := Cart_save ((get_cart user s)\<lparr>c_items := upsert req ?items\<rparr>) (carts s)\<rparr>))"
  proof (cases "find (req_line req) ?items")
    case None
    with cart_add_absent [OF assms(1,2,3) None] show ?thesis
      by (simp add: merged_quantity_def upsert_def list_ex_find)
  next
    case (Some l)
    with assms(5) have "ci_quantity l + ar_quantity req \<le> 2 ^ 53"
      by (simp add: merged_quantity_def)
    with Some cart_add_present [OF assms(1,2,3) Some] show ?thesis
      by (simp add: merged_quantity_def upsert_def list_ex_find)
  qed
  moreover from eq have "if merged_quantity req ?items > st
      then get_cart user (snd (cart_add e user req s)) = get_cart user s
      else c_items (get_cart user (snd (cart_add e user req s))) = upsert req ?items"
    by (simp add: get_cart_saved)
  moreover from assms(4) upsert_lines [of req ?items]
  have "length (filter (req_line req) (upsert req ?items)) = 1"
    by simp
  ultimately show ?thesis
    using upsert_quantity [of req ?items] upsert_others [of req ?items]
    by simp
qed

text \<open>
  The scenario of the specification: adding 2 and then 3 of (p1, M, Black) gives one line
  of quantity 5 when 5 are in stock, and the second add is rejected, the cart unchanged,
  when 3 are in stock.
\<close>

theorem cart_add_merges_witness:
  "add_well_formed shop_env (add_shirts 3) \<and>
   variant_stock (products (shop\<lparr>products := [shirt 5], carts := [cart_of [shirt_line ''M'' ''Black'' 2]]\<rparr>))
     p1 ''M'' ''Black'' = Some 5 \<and>
   cart_valid (get_cart ''alice''
     (shop\<lparr>products := [shirt 5], carts := [cart_of [shirt_line ''M'' ''Black'' 2]]\<rparr>)) \<and>
   length (filter (req_line (add_shirts 3)) [shirt_line ''M'' ''Black'' 2]) \<le> 1 \<and>
   merged_quantity (add_shirts 3) [shirt_line ''M'' ''Black'' 2] \<le> 2 ^ 53 \<and>
   cart_add shop_env ''alice'' (add_shirts 2) (shop\<lparr>products := [shirt 5]\<rparr>) =
     (Response 200 (CartItems [shirt_line ''M'' ''Black'' 2]),
      shop\<lparr>products := [shirt 5], carts := [cart_of [shirt_line ''M'' ''Black'' 2]]\<rparr>) \<and>
   cart_add shop_env ''alice'' (add_shirts 3)
     (shop\<lparr>products := [shirt 5], carts := [cart_of [shirt_line ''M'' ''Black'' 2]]\<rparr>) =
     (Response 200 (CartItems [shirt_line ''M'' ''Black'' 5]),
      shop\<lparr>products := [shirt 5], carts := [cart_of [shirt_line ''M'' ''Black'' 5]]\<rparr>) \<and>
   variant_stock (products (shop\<lparr>carts := [cart_of [shirt_line ''M'' ''Black'' 2]]\<rparr>))
     p1 ''M'' ''Black'' = Some 3 \<and>
   cart_valid (get_cart ''alice'' (shop\<lparr>carts := [cart_of [shirt_line ''M'' ''Black'' 2]]\<rparr>)) \<and>
   cart_add shop_env ''alice'' (add_shirts 3) (shop\<lparr>carts := [cart_of [shirt_line ''M'' ''Black'' 2]]\<rparr>) =
     (Response 400 (CannotAdd 5 3), shop\<lparr>carts := [cart_of [shirt_line ''M'' ''Black'' 2]]\<rparr>)"
proof -
  let ?s5 = "shop\<lparr>products := [shirt 5], carts := [cart_of [shirt_line ''M'' ''Black'' 2]]\<rparr>"
  let ?s3 = "shop\<lparr>carts := [cart_of [shirt_line ''M'' ''Black'' 2]]\<rparr>"
  have wf: "add_well_formed shop_env (add_shirts 3)"
    by (simp add: cart_defs observation_defs shop_defs)
  have st5: "variant_stock (products ?s5) (ar_productId (add_shirts 3)) (ar_size (add_shirts 3))
      (ar_colorName (add_shirts 3)) = Some 5"
    and st3: "variant_stock (products ?s3) (ar_productId (add_shirts 3)) (ar_size (add_shirts 3))
      (ar_colorName (add_shirts 3)) = Some 3"
    by (simp_all add: cart_defs observation_defs shop_defs Let_def)
  have v5: "cart_valid (get_cart ''alice'' ?s5)" and v3: "cart_valid (get_cart ''alice'' ?s3)"
    by (simp_all add: cart_defs observation_defs shop_defs Let_def)
  have i5: "c_items (get_cart ''alice'' ?s5) = [shirt_line ''M'' ''Black'' 2]"
    and i3: "c_items (get_cart ''alice'' ?s3) = [shirt_line ''M'' ''Black'' 2]"
    by (simp_all add: cart_defs shop_defs)
  have one: "length (filter (req_line (add_shirts 3)) [shirt_line ''M'' ''Black'' 2]) \<le> 1"
    by simp
  have m: "merged_quantity (add_shirts 3) [shirt_line ''M'' ''Black'' 2] = 5"
    by (simp add: cart_defs observation_defs shop_defs)
  then have safe: "merged_quantity (add_shirts 3) [shirt_line ''M'' ''Black'' 2] \<le> 2 ^ 53"
    by simp
  have first: "cart_add shop_env ''alice'' (add_shirts 2) (shop\<lparr>products := [shirt 5]\<rparr>) =
     (Response 200 (CartItems [shirt_line ''M'' ''Black'' 2]), ?s5)"
    by (simp add: cart_defs observation_defs shop_defs Let_def)
  have u5: "upsert (add_shirts 3) [shirt_line ''M'' ''Black'' 2] = [shirt_line ''M'' ''Black'' 5]"
    "?s5\<lparr>carts := Cart_save ((get_cart ''alice'' ?s5)\<lparr>c_items := [shirt_line ''M'' ''Black'' 5]\<rparr>)
                       (carts ?s5)\<rparr> =
     shop\<lparr>products := [shirt 5], carts := [cart_of [shirt_line ''M'' ''Black'' 5]]\<rparr>"
    by (simp_all add: cart_defs observation_defs shop_defs Let_def)
  have a5: "cart_add shop_env ''alice'' (add_shirts 3) ?s5 =
     (Response 200 (CartItems [shirt_line ''M'' ''Black'' 5]),
      shop\<lparr>products := [shirt 5], carts := [cart_of [shirt_line ''M'' ''Black'' 5]]\<rparr>)"
    using cart_add_merges [OF wf st5 v5] one safe unfolding i5 m u5 by simp
  have a3: "cart_add shop_env ''alice'' (add_shirts 3) ?s3 = (Response 400 (CannotAdd 5 3), ?s3)"
    using cart_add_merges [OF wf st3 v3] one safe unfolding i3 m by simp
  from wf st5 st3 v5 v3 one safe first a5 a3 show ?thesis
    by (simp add: add_shirts_def)
qed

section \<open>Cart merge\<close>



















end
